theory Spec2Isabelle
  imports Main
begin

section \<open>Text and bytes\<close>

text \<open>
  A Python \<open>str\<close> is a sequence of Unicode code points and is modelled as a list of
  natural numbers; a \<open>bytes\<close> object is a list of 8-bit characters.  \<open>lit\<close> turns an
  ASCII literal of the source into the corresponding \<open>str\<close>.
\<close>

type_synonym str = "nat list"
type_synonym bytes = "char list"

definition lit :: "string \<Rightarrow> str" where
  "lit cs = map (of_char :: char \<Rightarrow> nat) cs"

definition newline :: str where
  "newline = [10]"

text \<open>
  \<open>str.isspace\<close> for one code point: the code points Python treats as whitespace,
  which are the ones \<open>str.strip()\<close> removes.
\<close>

definition isspace :: "nat \<Rightarrow> bool" where
  "isspace c =
     ((0x09 \<le> c \<and> c \<le> 0x0D) \<or> (0x1C \<le> c \<and> c \<le> 0x20) \<or> c = 0x85 \<or> c = 0xA0 \<or>
      c = 0x1680 \<or> (0x2000 \<le> c \<and> c \<le> 0x200A) \<or> c = 0x2028 \<or> c = 0x2029 \<or>
      c = 0x202F \<or> c = 0x205F \<or> c = 0x3000)"

definition strip :: "str \<Rightarrow> str" where
  "strip s = rev (dropWhile isspace (rev (dropWhile isspace s)))"

text \<open>The \<open>in\<close> operator on two strings: \<open>str_contains pat s\<close> is \<open>pat in s\<close>.\<close>

fun str_contains :: "str \<Rightarrow> str \<Rightarrow> bool" where
  "str_contains pat [] = (pat = [])"
| "str_contains pat (c # cs) = (take (length pat) (c # cs) = pat \<or> str_contains pat cs)"

text \<open>An integer inside an f-string: its decimal digits, with a minus sign when negative.\<close>

fun digits_nat :: "nat \<Rightarrow> str" where
  "digits_nat n = (if n < 10 then [48 + n] else digits_nat (n div 10) @ [48 + n mod 10])"

declare digits_nat.simps [simp del]

definition str_int :: "int \<Rightarrow> str" where
  "str_int i = (if i < 0 then 45 # digits_nat (nat (- i)) else digits_nat (nat i))"

subsection \<open>UTF-8\<close>

text \<open>
  \<open>bytes.decode('utf-8')\<close> in strict mode: overlong forms, surrogates, code points above
  U+10FFFF and truncated sequences are rejected.  \<open>decode1\<close> reads one code point and
  returns the remaining bytes.
\<close>

definition is_cont :: "char \<Rightarrow> bool" where
  "is_cont b = (0x80 \<le> (of_char b :: nat) \<and> (of_char b :: nat) \<le> 0xBF)"

definition cont_bits :: "char \<Rightarrow> nat" where
  "cont_bits b = of_char b - 0x80"

fun decode1 :: "bytes \<Rightarrow> (nat \<times> bytes) option" where
  "decode1 [] = None"
| "decode1 (b # bs) =
     (let n = (of_char b :: nat) in
      if n < 0x80 then Some (n, bs)
      else if n < 0xC2 then None
      else if n < 0xE0 then
        (case bs of
           c1 # r \<Rightarrow>
             if is_cont c1 then Some ((n - 0xC0) * 64 + cont_bits c1, r) else None
         | _ \<Rightarrow> None)
      else if n < 0xF0 then
        (case bs of
           c1 # c2 # r \<Rightarrow>
             (let cp = (n - 0xE0) * 4096 + cont_bits c1 * 64 + cont_bits c2 in
              if is_cont c1 \<and> is_cont c2 \<and> 0x800 \<le> cp \<and> \<not> (0xD800 \<le> cp \<and> cp \<le> 0xDFFF)
              then Some (cp, r) else None)
         | _ \<Rightarrow> None)
      else if n < 0xF5 then
        (case bs of
           c1 # c2 # c3 # r \<Rightarrow>
             (let cp = (n - 0xF0) * 262144 + cont_bits c1 * 4096 + cont_bits c2 * 64
                        + cont_bits c3 in
              if is_cont c1 \<and> is_cont c2 \<and> is_cont c3 \<and> 0x10000 \<le> cp \<and> cp \<le> 0x10FFFF
              then Some (cp, r) else None)
         | _ \<Rightarrow> None)
      else None)"

function utf8_decode :: "bytes \<Rightarrow> str option" where
  "utf8_decode bs =
     (if bs = [] then Some []
      else (case decode1 bs of
              None \<Rightarrow> None
            | Some (cp, r) \<Rightarrow> map_option ((#) cp) (utf8_decode r)))"
  by pat_completeness auto
termination
proof (relation "measure length")
  show "wf (measure length)" by simp
next
  fix bs :: bytes and x2 :: "nat \<times> bytes" and cp r
  assume "decode1 bs = Some x2" and "(cp, r) = x2"
  then have "decode1 bs = Some (cp, r)" by simp
  then have "length r < length bs"
    by (cases bs) (auto simp: Let_def split: if_splits list.splits)
  then show "(r, bs) \<in> measure length" by simp
qed

declare utf8_decode.simps [simp del]

text \<open>
  \<open>str.encode()\<close> (UTF-8, strict): a lone surrogate cannot be encoded; a number above
  U+10FFFF is not a code point at all.
\<close>

definition encode1 :: "nat \<Rightarrow> bytes option" where
  "encode1 cp =
     (if cp < 0x80 then Some [char_of cp]
      else if cp < 0x800 then Some [char_of (0xC0 + cp div 64), char_of (0x80 + cp mod 64)]
      else if cp < 0x10000 then
        (if 0xD800 \<le> cp \<and> cp \<le> 0xDFFF then None
         else Some [char_of (0xE0 + cp div 4096), char_of (0x80 + (cp div 64) mod 64),
                    char_of (0x80 + cp mod 64)])
      else if cp < 0x110000 then
        Some [char_of (0xF0 + cp div 262144), char_of (0x80 + (cp div 4096) mod 64),
              char_of (0x80 + (cp div 64) mod 64), char_of (0x80 + cp mod 64)]
      else None)"

fun utf8_encode :: "str \<Rightarrow> bytes option" where
  "utf8_encode [] = Some []"
| "utf8_encode (c # cs) =
     (case encode1 c of
        None \<Rightarrow> None
      | Some b \<Rightarrow> map_option ((@) b) (utf8_encode cs))"

section \<open>Exceptions, the device file and the program state\<close>

text \<open>
  The exceptions the library can let escape.  A constructor is the class of the exception
  raised.  \<open>OSError e\<close> is what a failing system call raises, with the errno \<open>e\<close>
  reported by the operating system; \<open>ValueError\<close> carries the text that \<open>float()\<close>
  could not convert (Python's message embeds it); \<open>ConnectionError\<close> carries the message
  built by \<open>_verify_connection\<close>.  In the specification these exceptions are called
  \<open>DeviceIOError\<close> (\<open>OSError\<close>), \<open>DecodeError\<close> (\<open>UnicodeDecodeError\<close>), \<open>ParseError\<close>
  (\<open>ValueError\<close>) and \<open>ConnectionError\<close>.
\<close>

datatype exn =
    OSError nat
  | KeyboardInterrupt
  | UnicodeEncodeError
  | UnicodeDecodeError
  | ValueError str
  | ConnectionError str

text \<open>
  Python's exception classes form a hierarchy, and failing with an exception of some class
  means raising an instance of that class or of a subclass.  \<open>ConnectionError\<close> is a
  subclass of \<open>OSError\<close>, and for some errnos a failing system call raises a subclass of
  \<open>ConnectionError\<close>: \<open>BrokenPipeError\<close> for EPIPE (32) and ESHUTDOWN (108),
  \<open>ConnectionAbortedError\<close> for ECONNABORTED (103), \<open>ConnectionRefusedError\<close> for
  ECONNREFUSED (111) and \<open>ConnectionResetError\<close> for ECONNRESET (104).
  \<open>UnicodeDecodeError\<close> and \<open>UnicodeEncodeError\<close> are subclasses of \<open>ValueError\<close>.
  \<open>is_ConnectionError e\<close> is \<open>isinstance(e, ConnectionError)\<close>, and likewise for the
  other two.
\<close>

definition connection_errno :: "nat \<Rightarrow> bool" where
  "connection_errno e = (e = 32 \<or> e = 108 \<or> e = 103 \<or> e = 111 \<or> e = 104)"

fun is_ConnectionError :: "exn \<Rightarrow> bool" where
  "is_ConnectionError (ConnectionError m) = True"
| "is_ConnectionError (OSError e) = connection_errno e"
| "is_ConnectionError x = False"

fun is_OSError :: "exn \<Rightarrow> bool" where
  "is_OSError (OSError e) = True"
| "is_OSError (ConnectionError m) = True"
| "is_OSError x = False"

fun is_ValueError :: "exn \<Rightarrow> bool" where
  "is_ValueError (ValueError t) = True"
| "is_ValueError UnicodeDecodeError = True"
| "is_ValueError UnicodeEncodeError = True"
| "is_ValueError x = False"

text \<open>
  Everything the library does to the outside world is recorded, in order.  \<open>Command\<close> and
  \<open>Query\<close> mark the entry into the two device-channel operations; the others are the
  calls \<open>os.open\<close>, \<open>os.write\<close>, \<open>time.sleep\<close> (in milliseconds: 50 stands for
  \<open>time.sleep(0.05)\<close>, 100 for \<open>time.sleep(0.1)\<close>), \<open>os.read\<close> and \<open>os.close\<close>.
\<close>

datatype event =
    Command str
  | Query str
  | OsOpen str
  | OsWrite nat bytes
  | Sleep nat
  | OsRead nat nat
  | OsClose nat

text \<open>
  The platform is what the library runs on: the operating system with the instrument
  behind the device file, and Python's conversion between text and floating-point numbers.
  Each system call may fail or answer depending on everything that happened before it, so
  its outcome is a function of the history, which ends with the call itself.
  \<open>time.sleep\<close> does not fail by itself, but it is where an interrupt arrives
  (\<open>KeyboardInterrupt\<close>).
  Floating-point values are an abstract type \<open>'f\<close>: \<open>float_of_str\<close> is \<open>float(s)\<close>
  (\<open>None\<close> where Python raises \<open>ValueError\<close>) and \<open>str_of_float\<close> is the text an f-string
  produces for a float.
\<close>

record 'f platform =
  open_err :: "event list \<Rightarrow> nat option"
  write_err :: "event list \<Rightarrow> nat option"
  sleep_intr :: "event list \<Rightarrow> bool"
  read_reply :: "event list \<Rightarrow> nat + bytes"
  close_err :: "event list \<Rightarrow> nat option"
  float_of_str :: "str \<Rightarrow> 'f option"
  str_of_float :: "'f \<Rightarrow> str"

text \<open>
  The object \<open>self\<close>: \<open>device\<close> is assigned by \<open>__init__\<close>, \<open>idn\<close> by
  \<open>_verify_connection\<close> (\<open>None\<close> while the attribute does not exist yet).
\<close>

record client =
  device :: str
  idn :: "str option"

record state =
  self :: client
  trace :: "event list"
  opened :: "nat list"

text \<open>
  The dataclass \<open>ChannelStatus\<close>.  Its fields \<open>output\<close> and \<open>power\<close> are named
  \<open>output_state\<close> and \<open>power_w\<close> here.
\<close>

record 'f ChannelStatus =
  channel :: int
  output_state :: bool
  voltage_set :: 'f
  current_set :: 'f
  voltage :: 'f
  current :: 'f
  power_w :: 'f

definition DEFAULT_DEVICE :: str where
  "DEFAULT_DEVICE = lit ''/dev/usbtmc2''"

subsection \<open>Computations that may raise\<close>

type_synonym 'a io = "state \<Rightarrow> (exn + 'a) \<times> state"

definition ret :: "'a \<Rightarrow> 'a io" where
  "ret x s = (Inr x, s)"

definition raise :: "exn \<Rightarrow> 'a io" where
  "raise e s = (Inl e, s)"

definition io_bind :: "'a io \<Rightarrow> ('a \<Rightarrow> 'b io) \<Rightarrow> 'b io" where
  "io_bind m f s = (case m s of (Inl e, s1) \<Rightarrow> (Inl e, s1) | (Inr x, s1) \<Rightarrow> f x s1)"

text \<open>
  \<open>try: body finally: fin\<close>.  The \<open>finally\<close> block always runs; when it raises, its
  exception replaces the outcome of the body.
\<close>

definition try_finally :: "'a io \<Rightarrow> unit io \<Rightarrow> 'a io" where
  "try_finally body fin s =
     (case body s of
        (r, s1) \<Rightarrow> (case fin s1 of (Inl e, s2) \<Rightarrow> (Inl e, s2) | (Inr u, s2) \<Rightarrow> (r, s2)))"

text \<open>\<open>for x in xs: f(x)\<close>: an exception in one iteration ends the loop.\<close>

fun for_each :: "('a \<Rightarrow> unit io) \<Rightarrow> 'a list \<Rightarrow> unit io" where
  "for_each f [] = ret ()"
| "for_each f (x # xs) = io_bind (f x) (\<lambda>u. for_each f xs)"

definition log :: "event \<Rightarrow> state \<Rightarrow> state" where
  "log e s = s\<lparr>trace := trace s @ [e]\<rparr>"

text \<open>
  The device-channel operations entered during a run, in order: the \<open>Command\<close> and
  \<open>Query\<close> entries of a trace.
\<close>

fun is_call :: "event \<Rightarrow> bool" where
  "is_call (Command c) = True"
| "is_call (Query c) = True"
| "is_call e = False"

definition calls :: "event list \<Rightarrow> event list" where
  "calls es = filter is_call es"

subsection \<open>System calls\<close>

text \<open>
  \<open>os.open\<close> returns the lowest descriptor that is not open.  \<open>os.read(fd, n)\<close> returns
  at most \<open>n\<close> bytes.  \<open>os.close\<close> gives the descriptor back to the system whether or not
  it reports an error.
\<close>

definition lowest_free :: "nat list \<Rightarrow> nat" where
  "lowest_free fds = hd (filter (\<lambda>n. n \<notin> set fds) [0 ..< Suc (length fds)])"

definition os_open :: "'f platform \<Rightarrow> str \<Rightarrow> nat io" where
  "os_open p path s =
     (let s1 = log (OsOpen path) s in
      case open_err p (trace s1) of
        Some e \<Rightarrow> (Inl (OSError e), s1)
      | None \<Rightarrow> (let fd = lowest_free (opened s1) in (Inr fd, s1\<lparr>opened := fd # opened s1\<rparr>)))"

definition os_write :: "'f platform \<Rightarrow> nat \<Rightarrow> bytes \<Rightarrow> unit io" where
  "os_write p fd bs s =
     (let s1 = log (OsWrite fd bs) s in
      case write_err p (trace s1) of
        Some e \<Rightarrow> (Inl (OSError e), s1)
      | None \<Rightarrow> (Inr (), s1))"

definition time_sleep :: "'f platform \<Rightarrow> nat \<Rightarrow> unit io" where
  "time_sleep p ms s =
     (let s1 = log (Sleep ms) s in
      if sleep_intr p (trace s1) then (Inl KeyboardInterrupt, s1) else (Inr (), s1))"

definition os_read :: "'f platform \<Rightarrow> nat \<Rightarrow> nat \<Rightarrow> bytes io" where
  "os_read p fd n s =
     (let s1 = log (OsRead fd n) s in
      case read_reply p (trace s1) of
        Inl e \<Rightarrow> (Inl (OSError e), s1)
      | Inr bs \<Rightarrow> (Inr (take n bs), s1))"

definition os_close :: "'f platform \<Rightarrow> nat \<Rightarrow> unit io" where
  "os_close p fd s =
     (let s1 = log (OsClose fd) s;
          s2 = s1\<lparr>opened := removeAll fd (opened s1)\<rparr> in
      case close_err p (trace s2) of
        Some e \<Rightarrow> (Inl (OSError e), s2)
      | None \<Rightarrow> (Inr (), s2))"

definition str_encode :: "str \<Rightarrow> bytes io" where
  "str_encode t = (case utf8_encode t of None \<Rightarrow> raise UnicodeEncodeError | Some bs \<Rightarrow> ret bs)"

definition bytes_decode :: "bytes \<Rightarrow> str io" where
  "bytes_decode bs = (case utf8_decode bs of None \<Rightarrow> raise UnicodeDecodeError | Some t \<Rightarrow> ret t)"

definition py_float :: "'f platform \<Rightarrow> str \<Rightarrow> 'f io" where
  "py_float p t = (case float_of_str p t of None \<Rightarrow> raise (ValueError t) | Some v \<Rightarrow> ret v)"

section \<open>The class RigolDP832A\<close>

text \<open>
  Each method takes the platform it runs on and transforms the state, which holds the
  object \<open>self\<close>.  \<open>init\<close> is \<open>__init__\<close> and \<open>verify_connection\<close> is
  \<open>_verify_connection\<close>.  \<open>command\<close> is the operation the specification calls
  \<open>send\<close>.  The flag of \<open>configure\<close> is an explicit argument; in the source it is
  optional and defaults to \<open>False\<close>.
\<close>

definition command :: "'f platform \<Rightarrow> str \<Rightarrow> unit io" where
  "command p cmd s0 =
     (let s = log (Command cmd) s0 in
      io_bind (os_open p (device (self s)))
        (\<lambda>fd. try_finally
                 (io_bind (str_encode (cmd @ newline))
                    (\<lambda>bs. io_bind (os_write p fd bs)
                             (\<lambda>u. time_sleep p 50)))
                 (os_close p fd)) s)"

definition query :: "'f platform \<Rightarrow> str \<Rightarrow> str io" where
  "query p cmd s0 =
     (let s = log (Query cmd) s0 in
      io_bind (os_open p (device (self s)))
        (\<lambda>fd. try_finally
                 (io_bind (str_encode (cmd @ newline))
                    (\<lambda>bs. io_bind (os_write p fd bs)
                             (\<lambda>u. io_bind (time_sleep p 100)
                                      (\<lambda>u. io_bind (os_read p fd 4096)
                                               (\<lambda>raw. io_bind (bytes_decode raw)
                                                         (\<lambda>response. ret (strip response)))))))
                 (os_close p fd)) s)"

definition verify_connection :: "'f platform \<Rightarrow> unit io" where
  "verify_connection p =
     io_bind (query p (lit ''*IDN?''))
       (\<lambda>i. if \<not> str_contains (lit ''RIGOL'') i \<and> \<not> str_contains (lit ''DP8'') i
             then raise (ConnectionError (lit ''Unexpected device response: '' @ i))
             else (\<lambda>s. (Inr (), s\<lparr>self := (self s)\<lparr>idn := Some i\<rparr>\<rparr>)))"

definition init :: "'f platform \<Rightarrow> str \<Rightarrow> unit io" where
  "init p dev s = verify_connection p (s\<lparr>self := \<lparr>device = dev, idn = None\<rparr>\<rparr>)"

definition output_on :: "'f platform \<Rightarrow> int \<Rightarrow> unit io" where
  "output_on p ch = command p (lit '':OUTP CH'' @ str_int ch @ lit '',ON'')"

definition output_off :: "'f platform \<Rightarrow> int \<Rightarrow> unit io" where
  "output_off p ch = command p (lit '':OUTP CH'' @ str_int ch @ lit '',OFF'')"

definition get_output :: "'f platform \<Rightarrow> int \<Rightarrow> bool io" where
  "get_output p ch =
     io_bind (query p (lit '':OUTP? CH'' @ str_int ch)) (\<lambda>r. ret (r = lit ''ON''))"

definition set_voltage :: "'f platform \<Rightarrow> int \<Rightarrow> 'f \<Rightarrow> unit io" where
  "set_voltage p ch v =
     command p (lit '':SOUR'' @ str_int ch @ lit '':VOLT '' @ str_of_float p v)"

definition get_voltage_setpoint :: "'f platform \<Rightarrow> int \<Rightarrow> 'f io" where
  "get_voltage_setpoint p ch =
     io_bind (query p (lit '':SOUR'' @ str_int ch @ lit '':VOLT?'')) (py_float p)"

definition measure_voltage :: "'f platform \<Rightarrow> int \<Rightarrow> 'f io" where
  "measure_voltage p ch =
     io_bind (query p (lit '':MEAS:VOLT? CH'' @ str_int ch)) (py_float p)"

definition set_current :: "'f platform \<Rightarrow> int \<Rightarrow> 'f \<Rightarrow> unit io" where
  "set_current p ch c =
     command p (lit '':SOUR'' @ str_int ch @ lit '':CURR '' @ str_of_float p c)"

definition get_current_setpoint :: "'f platform \<Rightarrow> int \<Rightarrow> 'f io" where
  "get_current_setpoint p ch =
     io_bind (query p (lit '':SOUR'' @ str_int ch @ lit '':CURR?'')) (py_float p)"

definition measure_current :: "'f platform \<Rightarrow> int \<Rightarrow> 'f io" where
  "measure_current p ch =
     io_bind (query p (lit '':MEAS:CURR? CH'' @ str_int ch)) (py_float p)"

definition measure_power :: "'f platform \<Rightarrow> int \<Rightarrow> 'f io" where
  "measure_power p ch =
     io_bind (query p (lit '':MEAS:POWE? CH'' @ str_int ch)) (py_float p)"

definition set_ovp :: "'f platform \<Rightarrow> int \<Rightarrow> 'f \<Rightarrow> unit io" where
  "set_ovp p ch v =
     io_bind (command p (lit '':OUTP:OVP:VAL CH'' @ str_int ch @ lit '','' @ str_of_float p v))
       (\<lambda>u. command p (lit '':OUTP:OVP CH'' @ str_int ch @ lit '',ON''))"

definition set_ocp :: "'f platform \<Rightarrow> int \<Rightarrow> 'f \<Rightarrow> unit io" where
  "set_ocp p ch c =
     io_bind (command p (lit '':OUTP:OCP:VAL CH'' @ str_int ch @ lit '','' @ str_of_float p c))
       (\<lambda>u. command p (lit '':OUTP:OCP CH'' @ str_int ch @ lit '',ON''))"

text \<open>The keyword arguments of \<open>ChannelStatus(...)\<close> are evaluated in the order written.\<close>

definition status :: "'f platform \<Rightarrow> int \<Rightarrow> 'f ChannelStatus io" where
  "status p ch =
     io_bind (get_output p ch) (\<lambda>out.
     io_bind (get_voltage_setpoint p ch) (\<lambda>vs.
     io_bind (get_current_setpoint p ch) (\<lambda>cs.
     io_bind (measure_voltage p ch) (\<lambda>v.
     io_bind (measure_current p ch) (\<lambda>c.
     io_bind (measure_power p ch) (\<lambda>w.
     ret \<lparr>channel = ch, output_state = out, voltage_set = vs, current_set = cs,
          voltage = v, current = c, power_w = w\<rparr>))))))"

definition all_off :: "'f platform \<Rightarrow> unit io" where
  "all_off p = for_each (output_off p) [1, 2, 3]"

definition configure :: "'f platform \<Rightarrow> int \<Rightarrow> 'f \<Rightarrow> 'f \<Rightarrow> bool \<Rightarrow> unit io" where
  "configure p ch v c out =
     io_bind (set_voltage p ch v)
       (\<lambda>u. io_bind (set_current p ch c)
                (\<lambda>u. if out then output_on p ch else ret ()))"

section \<open>A simulated instrument\<close>

text \<open>
  Concrete platforms on which the operations can be run.  \<open>sim reply\<close> is a platform
  whose system calls all succeed and whose instrument answers a read with
  \<open>reply\<close> applied to the bytes written last.  Floating-point numbers are represented by
  their decimal text on this platform: \<open>sim_float\<close> accepts a non-empty text of digits
  and dots, and nothing else.
\<close>

definition last_written :: "event list \<Rightarrow> bytes" where
  "last_written es = fold (\<lambda>e acc. case e of OsWrite fd bs \<Rightarrow> bs | _ \<Rightarrow> acc) es []"

definition sim_float :: "str \<Rightarrow> str option" where
  "sim_float t =
     (if t \<noteq> [] \<and> list_all (\<lambda>c. (48 \<le> c \<and> c \<le> 57) \<or> c = 46) t then Some t else None)"

definition sim :: "(bytes \<Rightarrow> bytes) \<Rightarrow> str platform" where
  "sim reply =
     \<lparr>open_err = (\<lambda>h. None), write_err = (\<lambda>h. None), sleep_intr = (\<lambda>h. False),
      read_reply = (\<lambda>h. Inr (reply (last_written h))), close_err = (\<lambda>h. None),
      float_of_str = sim_float, str_of_float = (\<lambda>t. t)\<rparr>"

definition lf :: bytes where
  "lf = [CHR 0x0A]"

definition dp832 :: "bytes \<Rightarrow> bytes" where
  "dp832 bs =
     (if bs = ''*IDN?'' @ lf then ''RIGOL TECHNOLOGIES,DP832A,DP8B000000,00.01.16'' @ lf
      else if take 6 bs = '':OUTP?'' then ''OFF'' @ lf
      else ''5.000'' @ lf)"

text \<open>
  \<open>dp832\<close> above answers like the power supply: its identity to \<open>*IDN?\<close>, \<open>OFF\<close> to
  an output-state query, and \<open>5.000\<close> to everything else.  \<open>says answer\<close> is an
  instrument that answers every read with the same line.  \<open>unplugged\<close> is a platform
  without the device file: every \<open>os.open\<close> fails with errno 2 (ENOENT).  On
  \<open>write_fails\<close> every \<open>os.write\<close> fails with errno 5 (EIO), on \<open>stalled\<close> with
  errno 32 (EPIPE), which is what a stalled USB endpoint reports.
\<close>

definition says :: "bytes \<Rightarrow> bytes \<Rightarrow> bytes" where
  "says answer bs = answer @ lf"

definition unplugged :: "str platform" where
  "unplugged = (sim dp832)\<lparr>open_err := (\<lambda>h. Some 2)\<rparr>"


definition stalled :: "str platform" where
  "stalled = (sim dp832)\<lparr>write_err := (\<lambda>h. Some 32)\<rparr>"

text \<open>
  \<open>st0\<close> is the state of a freshly created object on the default device path before
  anything has happened.  \<open>exchange cs\<close> is the sequence of events of one successful
  query with command \<open>cs\<close> on a simulated platform.
\<close>

definition st0 :: state where
  "st0 = \<lparr>self = \<lparr>device = DEFAULT_DEVICE, idn = None\<rparr>, trace = [], opened = []\<rparr>"


section \<open>Auxiliary notions for the proofs\<close>

text \<open>
  \<open>with_device\<close> is the shape shared by \<open>command\<close> and \<open>query\<close>: log the entry, open
  the device, run a body under \<open>try\<close>, close in \<open>finally\<close>.  \<open>quiet\<close> relates two states
  that differ at most in system-call events.  \<open>chan_exn\<close> holds for the exceptions that
  come from the device channel itself.  \<open>calls_within m L\<close> says that, from any state,
  the operations \<open>m\<close> enters are an initial segment of \<open>L\<close>; \<open>calls_some\<close> says the
  same of a non-empty initial segment.
\<close>

definition with_device :: "'f platform \<Rightarrow> event \<Rightarrow> (nat \<Rightarrow> 'a io) \<Rightarrow> 'a io" where
  "with_device p ev body s0 =
     (let s = log ev s0 in
      io_bind (os_open p (device (self s)))
        (\<lambda>fd. try_finally (body fd) (os_close p fd)) s)"

definition quiet :: "state \<Rightarrow> state \<Rightarrow> bool" where
  "quiet s s' =
     (self s' = self s \<and> opened s' = opened s \<and> calls (trace s') = calls (trace s))"

definition chan_exn :: "exn \<Rightarrow> bool" where
  "chan_exn e = (case e of ValueError t \<Rightarrow> False | ConnectionError m \<Rightarrow> False | _ \<Rightarrow> True)"



section \<open>Basic facts\<close>

lemma lowest_free_fresh: "lowest_free fds \<notin> set fds"
proof -
  let ?xs = "[0 ..< Suc (length fds)]"
  let ?free = "filter (\<lambda>n. n \<notin> set fds) ?xs"
  have "?free \<noteq> []"
  proof
    assume "?free = []"
    then have "\<forall>x\<in>set ?xs. \<not> x \<notin> set fds"
      unfolding filter_empty_conv .
    then have "set ?xs \<subseteq> set fds"
      by blast
    then have "card (set ?xs) \<le> card (set fds)"
      by (intro card_mono) auto
    moreover have "card (set ?xs) = Suc (length fds)"
      by (simp only: set_upt card_atLeastLessThan)
    moreover have "card (set fds) \<le> length fds" by (rule card_length)
    ultimately show False by simp
  qed
  then have "hd ?free \<in> set ?free" by (rule hd_in_set)
  then have "hd ?free \<notin> set fds" unfolding set_filter by blast
  then show ?thesis unfolding lowest_free_def .
qed


lemma bind_InlD:
  "io_bind m f s = (Inl e, s') \<Longrightarrow>
     m s = (Inl e, s') \<or> (\<exists>x s1. m s = (Inr x, s1) \<and> f x s1 = (Inl e, s'))"
  by (auto simp: io_bind_def split: prod.splits sum.splits)


lemma bind_Inl: "m s = (Inl e, s1) \<Longrightarrow> io_bind m f s = (Inl e, s1)"
  by (simp add: io_bind_def)

subsection \<open>Steps that leave the client, the handles and the call log alone\<close>

lemma quiet_ret: "quiet s (snd (ret x s))"
  by (simp add: quiet_def ret_def)

lemma quiet_raise: "quiet s (snd (raise e s))"
  by (simp add: quiet_def raise_def)

lemma quiet_bind:
  assumes "\<And>s. quiet s (snd (m s))" and "\<And>x s. quiet s (snd (f x s))"
  shows "quiet s (snd (io_bind m f s))"
proof (cases "m s")
  case (Pair r s1)
  have q1: "quiet s s1" using assms(1)[of s] Pair by simp
  show ?thesis
  proof (cases r)
    case (Inl e)
    with Pair q1 show ?thesis by (simp add: io_bind_def)
  next
    case (Inr x)
    have "quiet s1 (snd (f x s1))" by (rule assms(2))
    with q1 Pair Inr show ?thesis by (simp add: io_bind_def quiet_def)
  qed
qed

lemma quiet_os_write: "quiet s (snd (os_write p fd bs s))"
  by (simp add: quiet_def os_write_def log_def calls_def Let_def split: option.splits)

lemma quiet_time_sleep: "quiet s (snd (time_sleep p ms s))"
  by (simp add: quiet_def time_sleep_def log_def calls_def Let_def)

lemma quiet_os_read: "quiet s (snd (os_read p fd n s))"
  by (simp add: quiet_def os_read_def log_def calls_def Let_def split: sum.splits)

lemma quiet_str_encode: "quiet s (snd (str_encode t s))"
  by (simp add: str_encode_def quiet_ret quiet_raise split: option.splits)

lemma quiet_bytes_decode: "quiet s (snd (bytes_decode bs s))"
  by (simp add: bytes_decode_def quiet_ret quiet_raise split: option.splits)

lemma quiet_py_float: "quiet s (snd (py_float p t s))"
  by (simp add: py_float_def quiet_ret quiet_raise split: option.splits)

lemmas quiet_intros = quiet_bind quiet_ret quiet_raise quiet_os_write quiet_time_sleep
  quiet_os_read quiet_str_encode quiet_bytes_decode quiet_py_float

lemma with_device_frame:
  assumes body: "\<And>fd s. quiet s (snd (body fd s))"
  shows "self (snd (with_device p ev body s)) = self s"
    and "opened (snd (with_device p ev body s)) = opened s"
    and "calls (trace (snd (with_device p ev body s))) = calls (trace s) @ filter is_call [ev]"
proof -
  let ?s1 = "log (OsOpen (device (self s))) (log ev s)"
  let ?fd = "lowest_free (opened s)"
  let ?s2 = "?s1\<lparr>opened := ?fd # opened s\<rparr>"
  obtain r s3 where b: "body ?fd ?s2 = (r, s3)" by (cases "body ?fd ?s2")
  have q: "quiet ?s2 s3" using body[of ?s2 ?fd] b by simp
  have fresh: "removeAll ?fd (opened s) = opened s"
    using lowest_free_fresh[of "opened s"] by simp
  have "self (snd (with_device p ev body s)) = self s
      \<and> opened (snd (with_device p ev body s)) = opened s
      \<and> calls (trace (snd (with_device p ev body s))) = calls (trace s) @ filter is_call [ev]"
    using q b fresh
    by (simp add: with_device_def io_bind_def try_finally_def os_open_def os_close_def
        log_def Let_def quiet_def calls_def split: option.splits)
  then show "self (snd (with_device p ev body s)) = self s"
    and "opened (snd (with_device p ev body s)) = opened s"
    and "calls (trace (snd (with_device p ev body s))) = calls (trace s) @ filter is_call [ev]"
    by simp_all
qed

lemma command_with:
  "command p cmd =
     with_device p (Command cmd)
       (\<lambda>fd. io_bind (str_encode (cmd @ newline))
               (\<lambda>bs. io_bind (os_write p fd bs) (\<lambda>u. time_sleep p 50)))"
  by (rule ext) (simp add: command_def with_device_def)

lemma query_with:
  "query p cmd =
     with_device p (Query cmd)
       (\<lambda>fd. io_bind (str_encode (cmd @ newline))
               (\<lambda>bs. io_bind (os_write p fd bs)
                  (\<lambda>u. io_bind (time_sleep p 100)
                     (\<lambda>u. io_bind (os_read p fd 4096)
                        (\<lambda>raw. io_bind (bytes_decode raw)
                           (\<lambda>response. ret (strip response)))))))"
  by (rule ext) (simp add: query_def with_device_def)

lemma command_self: "self (snd (command p c s)) = self s"
  unfolding command_with by (rule with_device_frame(1)) (intro quiet_intros)


lemma command_calls: "calls (trace (snd (command p c s))) = calls (trace s) @ [Command c]"
  unfolding command_with
  by (subst with_device_frame(3)) (simp_all add: quiet_intros)

lemma query_self: "self (snd (query p c s)) = self s"
  unfolding query_with by (rule with_device_frame(1)) (intro quiet_intros)


lemma query_calls: "calls (trace (snd (query p c s))) = calls (trace s) @ [Query c]"
  unfolding query_with
  by (subst with_device_frame(3)) (simp_all add: quiet_intros)

subsection \<open>Which exceptions the channel raises\<close>

lemma chan_bind:
  assumes "\<And>s e s'. m s = (Inl e, s') \<Longrightarrow> chan_exn e"
    and "\<And>x s e s'. f x s = (Inl e, s') \<Longrightarrow> chan_exn e"
    and "io_bind m f s = (Inl e, s')"
  shows "chan_exn e"
  using bind_InlD[OF assms(3)] assms(1,2) by blast

lemma chan_prims:
  "os_open p path s = (Inl e, s') \<Longrightarrow> chan_exn e"
  "os_write p fd bs s = (Inl e, s') \<Longrightarrow> chan_exn e"
  "time_sleep p ms s = (Inl e, s') \<Longrightarrow> chan_exn e"
  "os_read p fd n s = (Inl e, s') \<Longrightarrow> chan_exn e"
  "os_close p fd s = (Inl e, s') \<Longrightarrow> chan_exn e"
  "str_encode t s = (Inl e, s') \<Longrightarrow> chan_exn e"
  "bytes_decode bs s = (Inl e, s') \<Longrightarrow> chan_exn e"
  by (auto simp: os_open_def os_write_def time_sleep_def os_read_def os_close_def
      str_encode_def bytes_decode_def ret_def raise_def chan_exn_def Let_def
      split: option.splits sum.splits if_splits)

lemma chan_ret: "ret x s = (Inl e, s') \<Longrightarrow> chan_exn e"
  by (simp add: ret_def)

lemma chan_with_device:
  assumes body: "\<And>fd s e s'. body fd s = (Inl e, s') \<Longrightarrow> chan_exn e"
    and run: "with_device p ev body s = (Inl e, s')"
  shows "chan_exn e"
proof -
  from run have "io_bind (os_open p (device (self (log ev s))))
      (\<lambda>fd. try_finally (body fd) (os_close p fd)) (log ev s) = (Inl e, s')"
    by (simp add: with_device_def Let_def)
  from bind_InlD[OF this] show ?thesis
  proof
    assume "os_open p (device (self (log ev s))) (log ev s) = (Inl e, s')"
    then show ?thesis by (rule chan_prims)
  next
    assume "\<exists>fd s1. os_open p (device (self (log ev s))) (log ev s) = (Inr fd, s1)
        \<and> try_finally (body fd) (os_close p fd) s1 = (Inl e, s')"
    then obtain fd s1 where t: "try_finally (body fd) (os_close p fd) s1 = (Inl e, s')"
      by blast
    obtain r s2 where b: "body fd s1 = (r, s2)" by (cases "body fd s1")
    obtain c s3 where c: "os_close p fd s2 = (c, s3)" by (cases "os_close p fd s2")
    show ?thesis
    proof (cases c)
      case (Inl e')
      with t b c have "e = e'" by (simp add: try_finally_def)
      with c Inl show ?thesis by (auto intro: chan_prims)
    next
      case (Inr u)
      with t b c have "r = Inl e" by (simp add: try_finally_def)
      with b show ?thesis by (auto intro: body)
    qed
  qed
qed

lemma query_exn: "query p c s = (Inl e, s') \<Longrightarrow> chan_exn e"
  unfolding query_with
  by (erule chan_with_device[rotated]) (erule chan_bind[rotated 2] chan_prims chan_ret)+

lemma command_exn: "command p c s = (Inl e, s') \<Longrightarrow> chan_exn e"
  unfolding command_with
  by (erule chan_with_device[rotated]) (erule chan_bind[rotated 2] chan_prims chan_ret)+

subsection \<open>Text\<close>

lemma strip_split:
  "\<exists>a b. t = a @ strip t @ b \<and> list_all isspace a \<and> list_all isspace b"
proof -
  let ?u = "dropWhile isspace t"
  have "rev (takeWhile isspace (rev ?u) @ dropWhile isspace (rev ?u)) = rev (rev ?u)"
    by (simp only: takeWhile_dropWhile_id)
  then have "rev (dropWhile isspace (rev ?u)) @ rev (takeWhile isspace (rev ?u)) = ?u"
    by (simp only: rev_append rev_rev_ident)
  then have u: "?u = strip t @ rev (takeWhile isspace (rev ?u))"
    by (simp only: strip_def)
  have "t = takeWhile isspace t @ ?u" by simp
  with u have "t = takeWhile isspace t @ strip t @ rev (takeWhile isspace (rev ?u))"
    by simp
  moreover have "list_all isspace (takeWhile isspace t)"
    by (auto simp: list_all_iff dest: set_takeWhileD)
  moreover have "list_all isspace (rev (takeWhile isspace (rev ?u)))"
    by (auto simp: list_all_iff dest: set_takeWhileD)
  ultimately show ?thesis by blast
qed

lemma strip_edges:
  assumes "strip t \<noteq> []"
  shows "\<not> isspace (hd (strip t))" and "\<not> isspace (last (strip t))"
proof -
  let ?u = "dropWhile isspace t"
  let ?v = "dropWhile isspace (rev ?u)"
  have v: "?v \<noteq> []" using assms by (simp add: strip_def)
  then have "\<not> isspace (hd ?v)" by (rule hd_dropWhile)
  then show "\<not> isspace (last (strip t))"
    using v by (simp add: strip_def last_rev)
  have "rev ?u = takeWhile isspace (rev ?u) @ ?v" by simp
  then have "last (rev ?u) = last ?v" using v by (metis last_appendR)
  moreover have u: "?u \<noteq> []"
  proof
    assume a: "?u = []"
    have "?v = dropWhile isspace (rev [])" by (simp only: a)
    with v show False by simp
  qed
  ultimately have "hd ?u = last ?v" by (simp add: last_rev)
  moreover have "\<not> isspace (hd ?u)" using u by (rule hd_dropWhile)
  ultimately show "\<not> isspace (hd (strip t))"
    using v by (simp add: strip_def hd_rev)
qed

lemma isspace_newline: "isspace 10"
  by (simp add: isspace_def)

lemma str_contains_iff: "str_contains pat t \<longleftrightarrow> (\<exists>a b. t = a @ pat @ b)"
proof (induction t)
  case Nil
  show ?case by auto
next
  case (Cons c cs)
  have "take (length pat) (c # cs) = pat \<longleftrightarrow> (\<exists>b. c # cs = pat @ b)"
    by (metis append_eq_conv_conj append_take_drop_id)
  moreover have "(\<exists>a b. c # cs = a @ pat @ b)
      \<longleftrightarrow> (\<exists>b. c # cs = pat @ b) \<or> (\<exists>a b. cs = a @ pat @ b)"
  proof
    assume "\<exists>a b. c # cs = a @ pat @ b"
    then obtain a b where ab: "c # cs = a @ pat @ b" by blast
    show "(\<exists>b. c # cs = pat @ b) \<or> (\<exists>a b. cs = a @ pat @ b)"
    proof (cases a)
      case Nil
      with ab show ?thesis by auto
    next
      case (Cons x a')
      with ab show ?thesis by auto
    qed
  next
    assume "(\<exists>b. c # cs = pat @ b) \<or> (\<exists>a b. cs = a @ pat @ b)"
    then show "\<exists>a b. c # cs = a @ pat @ b"
    proof
      assume "\<exists>b. c # cs = pat @ b"
      then show ?thesis by (metis append_Nil)
    next
      assume "\<exists>a b. cs = a @ pat @ b"
      then show ?thesis by (metis append_Cons)
    qed
  qed
  ultimately show ?case using Cons.IH by simp
qed

subsection \<open>UTF-8 on ASCII text\<close>

lemma utf8_encode_append:
  "utf8_encode (a @ b) =
     (case utf8_encode a of None \<Rightarrow> None | Some x \<Rightarrow> map_option ((@) x) (utf8_encode b))"
proof (induction a)
  case Nil
  show ?case by (cases "utf8_encode b") simp_all
next
  case (Cons c a)
  then show ?case
    by (cases "utf8_encode b") (simp_all split: option.splits)
qed

lemma char_of_10: "char_of (10::nat) = CHR 0x0A"
proof -
  have "(10::nat) = of_char (CHR 0x0A)" by simp
  then show ?thesis by (simp only: char_of_char)
qed

lemma utf8_encode_newline: "utf8_encode newline = Some [CHR 0x0A]"
  by (simp add: newline_def encode1_def char_of_10)

lemma utf8_encode_line:
  "utf8_encode (cmd @ newline) = Some bs \<longleftrightarrow>
     (\<exists>b0. utf8_encode cmd = Some b0 \<and> bs = b0 @ [CHR 0x0A])"
  by (auto simp: utf8_encode_append utf8_encode_newline split: option.splits)

lemma utf8_encode_ascii:
  "list_all (\<lambda>c. c < 128) t \<Longrightarrow> utf8_encode t = Some (map char_of t)"
  by (induction t) (simp_all add: encode1_def)

lemma utf8_decode_ascii:
  "list_all (\<lambda>b. (of_char b :: nat) < 128) bs \<Longrightarrow> utf8_decode bs = Some (map of_char bs)"
proof (induction bs)
  case Nil
  show ?case by (simp add: utf8_decode.simps)
next
  case (Cons b bs)
  then show ?case
    by (subst utf8_decode.simps) (simp add: Let_def)
qed

subsection \<open>The text functions on some edge cases\<close>

lemma utf8_decode_two_bytes: "utf8_decode [CHR 0xC3, CHR 0xA9] = Some [0xE9]"
  by (simp add: utf8_decode.simps Let_def is_cont_def cont_bits_def)

lemma utf8_decode_three_bytes: "utf8_decode [CHR 0xE2, CHR 0x84, CHR 0xA6] = Some [0x2126]"
  by (simp add: utf8_decode.simps Let_def is_cont_def cont_bits_def)

lemma utf8_decode_four_bytes:
  "utf8_decode [CHR 0xF0, CHR 0x9F, CHR 0x98, CHR 0x80] = Some [0x1F600]"
  by (simp add: utf8_decode.simps Let_def is_cont_def cont_bits_def)

lemma utf8_decode_rejects:
  "utf8_decode [CHR 0xC0, CHR 0x80] = None"
  "utf8_decode [CHR 0xE0, CHR 0x80, CHR 0x80] = None"
  "utf8_decode [CHR 0xED, CHR 0xA0, CHR 0x80] = None"
  "utf8_decode [CHR 0xF4, CHR 0x90, CHR 0x80, CHR 0x80] = None"
  "utf8_decode [CHR 0xC3] = None"
  "utf8_decode [CHR 0x80] = None"
  "utf8_decode [CHR 0xFF] = None"
  by (simp_all add: utf8_decode.simps Let_def is_cont_def cont_bits_def)

lemma utf8_encode_examples:
  "utf8_encode [0xE9] = Some [CHR 0xC3, CHR 0xA9]"
  "utf8_encode [0x2126] = Some [CHR 0xE2, CHR 0x84, CHR 0xA6]"
  "utf8_encode [0x1F600] = Some [CHR 0xF0, CHR 0x9F, CHR 0x98, CHR 0x80]"
  "utf8_encode [0xD800] = None"
  by (simp_all add: encode1_def char_of_def bit_Suc_0_iff)

lemma strip_examples:
  "strip (lit ''ON'' @ newline) = lit ''ON''"
  "strip ([9, 32] @ lit ''5.000'' @ [13, 10]) = lit ''5.000''"
  "strip (lit ''A B'') = lit ''A B''"
  "strip [10, 32] = []"
  by (simp_all add: strip_def isspace_def lit_def newline_def)

lemma str_int_examples:
  "str_int 1 = lit ''1''" "str_int 0 = lit ''0''" "str_int 12 = lit ''12''"
  "str_int (- 3) = lit ''-3''"
  by (simp_all add: str_int_def digits_nat.simps lit_def)

subsection \<open>The run of one exchange when every step succeeds\<close>

lemma query_run:
  assumes "fd = lowest_free (opened s)"
    and "h1 = trace s @ [Query cmd, OsOpen (device (self s))]"
    and "utf8_encode (cmd @ newline) = Some bs"
    and "open_err p h1 = None"
    and "write_err p (h1 @ [OsWrite fd bs]) = None"
    and "\<not> sleep_intr p (h1 @ [OsWrite fd bs, Sleep 100])"
    and "read_reply p (h1 @ [OsWrite fd bs, Sleep 100, OsRead fd 4096]) = Inr raw"
    and "utf8_decode (take 4096 raw) = Some text"
    and "close_err p (h1 @ [OsWrite fd bs, Sleep 100, OsRead fd 4096, OsClose fd]) = None"
  shows "query p cmd s =
     (Inr (strip text),
      s\<lparr>trace := h1 @ [OsWrite fd bs, Sleep 100, OsRead fd 4096, OsClose fd]\<rparr>)"
proof -
  have fresh: "removeAll fd (opened s) = opened s"
    using lowest_free_fresh[of "opened s"] assms(1) by simp
  show ?thesis
    using assms fresh
    by (simp add: query_def io_bind_def try_finally_def ret_def log_def os_open_def
        os_write_def time_sleep_def os_read_def os_close_def str_encode_def
        bytes_decode_def Let_def)
qed

lemma command_run:
  assumes "fd = lowest_free (opened s)"
    and "h1 = trace s @ [Command cmd, OsOpen (device (self s))]"
    and "utf8_encode (cmd @ newline) = Some bs"
    and "open_err p h1 = None"
    and "write_err p (h1 @ [OsWrite fd bs]) = None"
    and "\<not> sleep_intr p (h1 @ [OsWrite fd bs, Sleep 50])"
    and "close_err p (h1 @ [OsWrite fd bs, Sleep 50, OsClose fd]) = None"
  shows "command p cmd s =
     (Inr (), s\<lparr>trace := h1 @ [OsWrite fd bs, Sleep 50, OsClose fd]\<rparr>)"
proof -
  have fresh: "removeAll fd (opened s) = opened s"
    using lowest_free_fresh[of "opened s"] assms(1) by simp
  show ?thesis
    using assms fresh
    by (simp add: command_def io_bind_def try_finally_def ret_def log_def os_open_def
        os_write_def time_sleep_def os_close_def str_encode_def Let_def)
qed

lemma command_open_fails:
  assumes "open_err p (trace s @ [Command cmd, OsOpen (device (self s))]) = Some e"
  shows "command p cmd s =
     (Inl (OSError e), s\<lparr>trace := trace s @ [Command cmd, OsOpen (device (self s))]\<rparr>)"
  using assms by (simp add: command_def io_bind_def log_def os_open_def Let_def)

subsection \<open>The simulated instrument\<close>

lemma lit_append: "lit (a @ b) = lit a @ lit b"
  by (simp add: lit_def)

lemma newline_lit: "newline = lit lf"
  by (simp add: newline_def lit_def lf_def)

lemma utf8_encode_lit:
  "list_all (\<lambda>c. (of_char c :: nat) < 128) cs \<Longrightarrow> utf8_encode (lit cs) = Some cs"
  by (simp add: lit_def utf8_encode_ascii list_all_iff comp_def)

lemma utf8_decode_lit:
  "list_all (\<lambda>c. (of_char c :: nat) < 128) cs \<Longrightarrow> utf8_decode cs = Some (lit cs)"
  by (simp add: lit_def utf8_decode_ascii)

lemma last_written_snoc:
  "last_written (es @ [OsWrite fd bs]) = bs"
  "last_written (es @ [Sleep n]) = last_written es"
  "last_written (es @ [OsRead fd n]) = last_written es"
  by (simp_all add: last_written_def)

lemma sim_query:
  assumes "list_all (\<lambda>c. (of_char c :: nat) < 128) cs"
    and "list_all (\<lambda>c. (of_char c :: nat) < 128) (take 4096 (reply (cs @ lf)))"
    and "fd = lowest_free (opened s)"
  shows "query (sim reply) (lit cs) s =
     (Inr (strip (lit (take 4096 (reply (cs @ lf))))),
      s\<lparr>trace := trace s @ [Query (lit cs), OsOpen (device (self s)), OsWrite fd (cs @ lf),
                            Sleep 100, OsRead fd 4096, OsClose fd]\<rparr>)"
proof -
  have enc: "utf8_encode (lit cs @ newline) = Some (cs @ lf)"
    using assms(1) by (simp add: newline_lit lit_append[symmetric] utf8_encode_lit lf_def)
  have lw: "last_written (trace s @ [Query (lit cs), OsOpen (device (self s)),
      OsWrite fd (cs @ lf), Sleep 100, OsRead fd 4096]) = cs @ lf"
    by (simp add: last_written_def)
  have dec: "utf8_decode (take 4096 (reply (cs @ lf))) = Some (lit (take 4096 (reply (cs @ lf))))"
    using assms(2) by (rule utf8_decode_lit)
  have rd: "read_reply (sim reply) ((trace s @ [Query (lit cs), OsOpen (device (self s))])
      @ [OsWrite fd (cs @ lf), Sleep 100, OsRead fd 4096]) = Inr (reply (cs @ lf))"
    by (simp add: sim_def lw)
  have "query (sim reply) (lit cs) s =
     (Inr (strip (lit (take 4096 (reply (cs @ lf))))),
      s\<lparr>trace := (trace s @ [Query (lit cs), OsOpen (device (self s))])
         @ [OsWrite fd (cs @ lf), Sleep 100, OsRead fd 4096, OsClose fd]\<rparr>)"
    by (rule query_run[OF assms(3) refl enc _ _ _ rd dec]) (simp_all add: sim_def)
  then show ?thesis by simp
qed

lemma sim_command:
  assumes "list_all (\<lambda>c. (of_char c :: nat) < 128) cs"
    and "fd = lowest_free (opened s)"
  shows "command (sim reply) (lit cs) s =
     (Inr (),
      s\<lparr>trace := trace s @ [Command (lit cs), OsOpen (device (self s)), OsWrite fd (cs @ lf),
                            Sleep 50, OsClose fd]\<rparr>)"
proof -
  have enc: "utf8_encode (lit cs @ newline) = Some (cs @ lf)"
    using assms(1) by (simp add: newline_lit lit_append[symmetric] utf8_encode_lit lf_def)
  have "command (sim reply) (lit cs) s =
     (Inr (),
      s\<lparr>trace := (trace s @ [Command (lit cs), OsOpen (device (self s))])
         @ [OsWrite fd (cs @ lf), Sleep 50, OsClose fd]\<rparr>)"
    by (rule command_run[OF assms(2) refl enc]) (simp_all add: sim_def)
  then show ?thesis by simp
qed

lemma str_int_digit: "0 \<le> i \<Longrightarrow> i < 10 \<Longrightarrow> str_int i = [48 + nat i]"
  by (simp add: str_int_def digits_nat.simps)

lemma str_int_1: "str_int 1 = lit ''1''"
  by (simp add: str_int_digit lit_def)

lemma lowest_free_Nil: "lowest_free [] = 0"
  by (simp add: lowest_free_def)




subsection \<open>No operation assigns to the client\<close>

lemma self_bind:
  assumes "\<And>s. self (snd (m s)) = self s" and "\<And>x s. self (snd (f x s)) = self s"
  shows "self (snd (io_bind m f s)) = self s"
proof (cases "m s")
  case (Pair r s1)
  have s1: "self s1 = self s" using assms(1)[of s] Pair by simp
  show ?thesis
  proof (cases r)
    case (Inl e)
    with Pair s1 show ?thesis by (simp add: io_bind_def)
  next
    case (Inr x)
    have "self (snd (f x s1)) = self s1" by (rule assms(2))
    with s1 Pair Inr show ?thesis by (simp add: io_bind_def)
  qed
qed

lemma self_ret: "self (snd (ret x s)) = self s"
  by (simp add: ret_def)

lemma self_py_float: "self (snd (py_float p t s)) = self s"
  using quiet_py_float[of s p t] by (simp add: quiet_def)

lemma self_for_each:
  assumes "\<And>x s. self (snd (f x s)) = self s"
  shows "self (snd (for_each f xs s)) = self s"
proof (induction xs arbitrary: s)
  case Nil
  show ?case by (simp add: self_ret)
next
  case (Cons x xs)
  show ?case by (simp add: self_bind assms Cons.IH)
qed

lemmas self_intros = self_bind self_ret self_py_float command_self query_self

lemma output_on_self: "self (snd (output_on p ch s)) = self s"
  by (simp add: output_on_def command_self)

lemma output_off_self: "self (snd (output_off p ch s)) = self s"
  by (simp add: output_off_def command_self)

lemma get_output_self: "self (snd (get_output p ch s)) = self s"
  unfolding get_output_def by (intro self_intros)

lemma set_voltage_self: "self (snd (set_voltage p ch v s)) = self s"
  by (simp add: set_voltage_def command_self)

lemma set_current_self: "self (snd (set_current p ch c s)) = self s"
  by (simp add: set_current_def command_self)

lemma get_voltage_setpoint_self: "self (snd (get_voltage_setpoint p ch s)) = self s"
  unfolding get_voltage_setpoint_def by (intro self_intros)

lemma get_current_setpoint_self: "self (snd (get_current_setpoint p ch s)) = self s"
  unfolding get_current_setpoint_def by (intro self_intros)

lemma measure_voltage_self: "self (snd (measure_voltage p ch s)) = self s"
  unfolding measure_voltage_def by (intro self_intros)

lemma measure_current_self: "self (snd (measure_current p ch s)) = self s"
  unfolding measure_current_def by (intro self_intros)

lemma measure_power_self: "self (snd (measure_power p ch s)) = self s"
  unfolding measure_power_def by (intro self_intros)

lemma set_ovp_self: "self (snd (set_ovp p ch v s)) = self s"
  unfolding set_ovp_def by (intro self_intros)

lemma set_ocp_self: "self (snd (set_ocp p ch c s)) = self s"
  unfolding set_ocp_def by (intro self_intros)

lemma status_self: "self (snd (status p ch s)) = self s"
  unfolding status_def
  by (intro self_intros get_output_self get_voltage_setpoint_self get_current_setpoint_self
      measure_voltage_self measure_current_self measure_power_self)

lemma all_off_self: "self (snd (all_off p s)) = self s"
  unfolding all_off_def by (rule self_for_each) (rule output_off_self)

lemma configure_self: "self (snd (configure p ch v c out s)) = self s"
proof (cases out)
  case True
  then show ?thesis
    unfolding configure_def
    by (intro self_bind set_voltage_self set_current_self) (simp add: output_on_self)
next
  case False
  then show ?thesis
    unfolding configure_def
    by (intro self_bind set_voltage_self set_current_self) (simp add: self_ret)
qed

text \<open>
  C10.  Every operation of the client other than construction (raw command and query, output
  control, setpoints, measurements, protection, status, all_off, configure) leaves the
  object itself as it was: the stored device path and the captured identity string are the
  same after the operation as before it, whether it returns or raises.
\<close>

theorem client_state_unchanged:
  "self (snd (command p cmd s)) = self s \<and>
   self (snd (query p cmd s)) = self s \<and>
   self (snd (output_on p ch s)) = self s \<and>
   self (snd (output_off p ch s)) = self s \<and>
   self (snd (get_output p ch s)) = self s \<and>
   self (snd (set_voltage p ch v s)) = self s \<and>
   self (snd (get_voltage_setpoint p ch s)) = self s \<and>
   self (snd (measure_voltage p ch s)) = self s \<and>
   self (snd (set_current p ch v s)) = self s \<and>
   self (snd (get_current_setpoint p ch s)) = self s \<and>
   self (snd (measure_current p ch s)) = self s \<and>
   self (snd (measure_power p ch s)) = self s \<and>
   self (snd (set_ovp p ch v s)) = self s \<and>
   self (snd (set_ocp p ch v s)) = self s \<and>
   self (snd (status p ch s)) = self s \<and>
   self (snd (all_off p s)) = self s \<and>
   self (snd (configure p ch v c out s)) = self s"
  by (simp only: command_self query_self output_on_self output_off_self get_output_self
      set_voltage_self get_voltage_setpoint_self measure_voltage_self set_current_self
      get_current_setpoint_self measure_current_self measure_power_self set_ovp_self
      set_ocp_self status_self all_off_self configure_self simp_thms)

theorem client_state_unchanged_witness:
  "self (snd (status (sim dp832) 1 st0)) = \<lparr>device = DEFAULT_DEVICE, idn = None\<rparr> \<and>
   self (snd (all_off unplugged st0)) = \<lparr>device = DEFAULT_DEVICE, idn = None\<rparr>"
  using client_state_unchanged[of "sim dp832" "[]" st0 1 "[]" "[]" False]
    client_state_unchanged[of unplugged "[]" st0 1 "[]" "[]" False]
  by (simp add: st0_def)

subsection \<open>Parsing the reply\<close>

lemma get_output_Inr:
  "query p (lit '':OUTP? CH'' @ str_int ch) s = (Inr r, s') \<Longrightarrow>
     get_output p ch s = (Inr (r = lit ''ON''), s')"
  by (simp add: get_output_def io_bind_def ret_def)

lemma get_output_Inl:
  "query p (lit '':OUTP? CH'' @ str_int ch) s = (Inl e, s') \<Longrightarrow>
     get_output p ch s = (Inl e, s')"
  by (simp add: get_output_def io_bind_def)

lemma get_output_exn: "get_output p ch s = (Inl e, s') \<Longrightarrow> chan_exn e"
  unfolding get_output_def
  by (erule chan_bind[rotated 2]) (erule query_exn chan_ret)+

lemma py_float_None:
  "query p cmd s = (Inr r, s') \<Longrightarrow> float_of_str p r = None \<Longrightarrow>
     io_bind (query p cmd) (py_float p) s = (Inl (ValueError r), s')"
  by (simp add: io_bind_def py_float_def raise_def)


text \<open>
  C6.  \<open>get_output\<close> returns true exactly when the trimmed reply of its query is the
  string \<open>ON\<close>; every other reply gives false.  A failure of the query itself propagates
  unchanged, and no reply text makes \<open>get_output\<close> raise a parse error.
\<close>

theorem get_output_exact_match:
  "(query p (lit '':OUTP? CH'' @ str_int ch) s = (Inr r, s') \<longrightarrow>
      get_output p ch s = (Inr (r = lit ''ON''), s')) \<and>
   (query p (lit '':OUTP? CH'' @ str_int ch) s = (Inl e, s') \<longrightarrow>
      get_output p ch s = (Inl e, s')) \<and>
   fst (get_output p ch s) \<noteq> Inl (ValueError t)"
proof -
  have "fst (get_output p ch s) \<noteq> Inl (ValueError t)"
  proof
    assume a: "fst (get_output p ch s) = Inl (ValueError t)"
    then have "get_output p ch s = (Inl (ValueError t), snd (get_output p ch s))"
      by (cases "get_output p ch s") simp
    then have "chan_exn (ValueError t)" by (rule get_output_exn)
    then show False by (simp add: chan_exn_def)
  qed
  then show ?thesis by (simp add: get_output_Inr get_output_Inl)
qed

lemma sim_query_1:
  assumes "list_all (\<lambda>c. (of_char c :: nat) < 128) cs"
    and "list_all (\<lambda>c. (of_char c :: nat) < 128) (take 4096 (reply ((cs @ ''1'') @ lf)))"
  shows "query (sim reply) (lit cs @ str_int 1) st0 =
     (Inr (strip (lit (take 4096 (reply ((cs @ ''1'') @ lf))))),
      st0\<lparr>trace := [Query (lit (cs @ ''1'')), OsOpen DEFAULT_DEVICE, OsWrite 0 ((cs @ ''1'') @ lf),
                       Sleep 100, OsRead 0 4096, OsClose 0]\<rparr>)"
proof -
  have a: "list_all (\<lambda>c. (of_char c :: nat) < 128) (cs @ ''1'')"
    using assms(1) by simp
  have fd: "0 = lowest_free (opened st0)" by (simp add: st0_def lowest_free_Nil)
  show ?thesis
    using sim_query[where reply=reply and cs="cs @ ''1''" and s=st0 and fd=0, OF a assms(2) fd]
    by (simp add: str_int_1 lit_append st0_def)
qed

theorem get_output_exact_match_witness:
  "fst (query (sim (says ''ON'')) (lit '':OUTP? CH'' @ str_int 1) st0) = Inr (lit ''ON'') \<and>
   fst (get_output (sim (says ''ON'')) 1 st0) = Inr True \<and>
   fst (query (sim (says ''on'')) (lit '':OUTP? CH'' @ str_int 1) st0) = Inr (lit ''on'') \<and>
   fst (get_output (sim (says ''on'')) 1 st0) = Inr False"
proof -
  let ?S = "st0\<lparr>trace := [Query (lit ('':OUTP? CH'' @ ''1'')), OsOpen DEFAULT_DEVICE,
      OsWrite 0 (('':OUTP? CH'' @ ''1'') @ lf), Sleep 100, OsRead 0 4096, OsClose 0]\<rparr>"
  have q1: "query (sim (says ''ON'')) (lit '':OUTP? CH'' @ str_int 1) st0 = (Inr (lit ''ON''), ?S)"
    by (subst sim_query_1)
       (simp_all add: says_def lf_def strip_def isspace_def lit_def)
  have q2: "query (sim (says ''on'')) (lit '':OUTP? CH'' @ str_int 1) st0 = (Inr (lit ''on''), ?S)"
    by (subst sim_query_1)
       (simp_all add: says_def lf_def strip_def isspace_def lit_def)
  from get_output_exact_match[of "sim (says ''ON'')" 1 st0 "lit ''ON''" ?S] q1
  have g1: "fst (get_output (sim (says ''ON'')) 1 st0) = Inr True" by simp
  from get_output_exact_match[of "sim (says ''on'')" 1 st0 "lit ''on''" ?S] q2
  have g2: "fst (get_output (sim (says ''on'')) 1 st0) = Inr False" by (simp add: lit_def)
  from q1 q2 g1 g2 show ?thesis by simp
qed

lemma sim_query_st0:
  assumes "list_all (\<lambda>c. (of_char c :: nat) < 128) cs"
    and "list_all (\<lambda>c. (of_char c :: nat) < 128) (take 4096 (reply (cs @ lf)))"
  shows "query (sim reply) (lit cs) st0 =
     (Inr (strip (lit (take 4096 (reply (cs @ lf))))),
      st0\<lparr>trace := [Query (lit cs), OsOpen DEFAULT_DEVICE, OsWrite 0 (cs @ lf),
                       Sleep 100, OsRead 0 4096, OsClose 0]\<rparr>)"
proof -
  have fd: "0 = lowest_free (opened st0)" by (simp add: st0_def lowest_free_Nil)
  show ?thesis
    using sim_query[where reply=reply and cs=cs and s=st0 and fd=0, OF assms fd]
    by (simp add: st0_def)
qed

text \<open>
  C3.  When the reply to a setpoint or measurement query is not text that \<open>float()\<close>
  accepts, the operation raises \<open>ValueError\<close> (the spec's \<open>ParseError\<close>) carrying exactly
  that reply text, in the state the query left; it returns no number at all.  This holds
  for \<open>get_voltage_setpoint\<close>, \<open>get_current_setpoint\<close>, \<open>measure_voltage\<close>,
  \<open>measure_current\<close> and \<open>measure_power\<close>.
\<close>

theorem malformed_float_raises:
  "(query p (lit '':SOUR'' @ str_int ch @ lit '':VOLT?'') s = (Inr r, s') \<and>
      float_of_str p r = None \<longrightarrow>
      get_voltage_setpoint p ch s = (Inl (ValueError r), s')) \<and>
   (query p (lit '':SOUR'' @ str_int ch @ lit '':CURR?'') s = (Inr r, s') \<and>
      float_of_str p r = None \<longrightarrow>
      get_current_setpoint p ch s = (Inl (ValueError r), s')) \<and>
   (query p (lit '':MEAS:VOLT? CH'' @ str_int ch) s = (Inr r, s') \<and>
      float_of_str p r = None \<longrightarrow>
      measure_voltage p ch s = (Inl (ValueError r), s')) \<and>
   (query p (lit '':MEAS:CURR? CH'' @ str_int ch) s = (Inr r, s') \<and>
      float_of_str p r = None \<longrightarrow>
      measure_current p ch s = (Inl (ValueError r), s')) \<and>
   (query p (lit '':MEAS:POWE? CH'' @ str_int ch) s = (Inr r, s') \<and>
      float_of_str p r = None \<longrightarrow>
      measure_power p ch s = (Inl (ValueError r), s'))"
  by (simp add: get_voltage_setpoint_def get_current_setpoint_def measure_voltage_def
      measure_current_def measure_power_def py_float_None)

theorem malformed_float_raises_witness:
  "fst (query (sim (says ''ERR'')) (lit '':SOUR'' @ str_int 1 @ lit '':VOLT?'') st0)
      = Inr (lit ''ERR'') \<and>
   float_of_str (sim (says ''ERR'')) (lit ''ERR'') = None \<and>
   fst (get_voltage_setpoint (sim (says ''ERR'')) 1 st0) = Inl (ValueError (lit ''ERR'')) \<and>
   fst (query (sim (says ''ERR'')) (lit '':MEAS:POWE? CH'' @ str_int 1) st0)
      = Inr (lit ''ERR'') \<and>
   fst (measure_power (sim (says ''ERR'')) 1 st0) = Inl (ValueError (lit ''ERR''))"
proof -
  let ?p = "sim (says ''ERR'')"
  let ?S1 = "st0\<lparr>trace := [Query (lit '':SOUR1:VOLT?''), OsOpen DEFAULT_DEVICE,
      OsWrite 0 ('':SOUR1:VOLT?'' @ lf), Sleep 100, OsRead 0 4096, OsClose 0]\<rparr>"
  let ?S2 = "st0\<lparr>trace := [Query (lit '':MEAS:POWE? CH1''), OsOpen DEFAULT_DEVICE,
      OsWrite 0 ('':MEAS:POWE? CH1'' @ lf), Sleep 100, OsRead 0 4096, OsClose 0]\<rparr>"
  have c1: "lit '':SOUR'' @ str_int 1 @ lit '':VOLT?'' = lit '':SOUR1:VOLT?''"
    by (simp add: str_int_1 lit_def)
  have c2: "lit '':MEAS:POWE? CH'' @ str_int 1 = lit '':MEAS:POWE? CH1''"
    by (simp add: str_int_1 lit_def)
  have q1: "query ?p (lit '':SOUR'' @ str_int 1 @ lit '':VOLT?'') st0 = (Inr (lit ''ERR''), ?S1)"
    unfolding c1
    by (subst sim_query_st0) (simp_all add: says_def lf_def strip_def isspace_def lit_def)
  have q2: "query ?p (lit '':MEAS:POWE? CH'' @ str_int 1) st0 = (Inr (lit ''ERR''), ?S2)"
    unfolding c2
    by (subst sim_query_st0) (simp_all add: says_def lf_def strip_def isspace_def lit_def)
  have f: "float_of_str ?p (lit ''ERR'') = None"
    by (simp add: sim_def sim_float_def lit_def)
  from malformed_float_raises[of ?p 1 st0 "lit ''ERR''" ?S1] q1 f
  have g1: "fst (get_voltage_setpoint ?p 1 st0) = Inl (ValueError (lit ''ERR''))" by simp
  from malformed_float_raises[of ?p 1 st0 "lit ''ERR''" ?S2] q2 f
  have g2: "fst (measure_power ?p 1 st0) = Inl (ValueError (lit ''ERR''))" by simp
  from q1 q2 f g1 g2 show ?thesis by simp
qed

text \<open>
  C5.  When the command can be encoded, every system call succeeds and the bytes read are
  valid UTF-8, \<open>query\<close> does exactly this, in this order: it opens the device, writes the
  encoded command followed by one newline byte, sleeps 100 ms, reads with a limit of 4096
  bytes and closes; it returns the decoded text with the whitespace at both ends removed.
  The result neither starts nor ends with a whitespace character; in particular it does
  not end with a newline.
\<close>

theorem query_returns_trimmed_reply:
  assumes "fd = lowest_free (opened s)"
    and "h = trace s @ [Query cmd, OsOpen (device (self s))]"
    and "utf8_encode (cmd @ newline) = Some bs"
    and "open_err p h = None"
    and "write_err p (h @ [OsWrite fd bs]) = None"
    and "\<not> sleep_intr p (h @ [OsWrite fd bs, Sleep 100])"
    and "read_reply p (h @ [OsWrite fd bs, Sleep 100, OsRead fd 4096]) = Inr raw"
    and "utf8_decode (take 4096 raw) = Some decoded"
    and "close_err p (h @ [OsWrite fd bs, Sleep 100, OsRead fd 4096, OsClose fd]) = None"
  shows "query p cmd s =
           (Inr (strip decoded),
            s\<lparr>trace := h @ [OsWrite fd bs, Sleep 100, OsRead fd 4096, OsClose fd]\<rparr>) \<and>
         (\<exists>b0. utf8_encode cmd = Some b0 \<and> bs = b0 @ [CHR 0x0A]) \<and>
         length (take 4096 raw) \<le> 4096 \<and>
         (\<exists>a b. decoded = a @ strip decoded @ b \<and> list_all isspace a \<and> list_all isspace b) \<and>
         (strip decoded = [] \<or>
            \<not> isspace (hd (strip decoded)) \<and> \<not> isspace (last (strip decoded)) \<and>
            last (strip decoded) \<noteq> 10)"
proof -
  have run: "query p cmd s =
      (Inr (strip decoded),
       s\<lparr>trace := h @ [OsWrite fd bs, Sleep 100, OsRead fd 4096, OsClose fd]\<rparr>)"
    using assms by (rule query_run)
  have enc: "\<exists>b0. utf8_encode cmd = Some b0 \<and> bs = b0 @ [CHR 0x0A]"
    using assms(3) by (simp only: utf8_encode_line)
  have edges: "strip decoded = [] \<or>
      \<not> isspace (hd (strip decoded)) \<and> \<not> isspace (last (strip decoded)) \<and> last (strip decoded) \<noteq> 10"
  proof (cases "strip decoded = []")
    case True
    then show ?thesis by simp
  next
    case False
    then have f: "\<not> isspace (hd (strip decoded))" and l: "\<not> isspace (last (strip decoded))"
      by (simp_all add: strip_edges)
    from l have "last (strip decoded) \<noteq> 10"
      using isspace_newline by auto
    with f l show ?thesis by simp
  qed
  from run enc strip_split[of decoded] edges show ?thesis by simp
qed

theorem query_returns_trimmed_reply_witness:
  "query (sim (says ''  5.000 '')) (lit '':MEAS:VOLT? CH1'') st0 =
     (Inr (lit ''5.000''),
      st0\<lparr>trace := [Query (lit '':MEAS:VOLT? CH1''), OsOpen DEFAULT_DEVICE,
                       OsWrite 0 ('':MEAS:VOLT? CH1'' @ lf), Sleep 100, OsRead 0 4096,
                       OsClose 0]\<rparr>) \<and>
   strip (lit (''  5.000 '' @ lf)) = lit ''5.000''"
proof -
  let ?p = "sim (says ''  5.000 '')"
  let ?cmd = "lit '':MEAS:VOLT? CH1''"
  let ?bs = "'':MEAS:VOLT? CH1'' @ lf"
  let ?h = "trace st0 @ [Query ?cmd, OsOpen (device (self st0))]"
  have fd: "0 = lowest_free (opened st0)" by (simp add: st0_def lowest_free_Nil)
  have enc: "utf8_encode (?cmd @ newline) = Some ?bs"
    by (simp add: newline_lit lit_append[symmetric] utf8_encode_lit lf_def)
  have op: "open_err ?p ?h = None" by (simp add: sim_def)
  have wr: "write_err ?p (?h @ [OsWrite 0 ?bs]) = None" by (simp add: sim_def)
  have sl: "\<not> sleep_intr ?p (?h @ [OsWrite 0 ?bs, Sleep 100])" by (simp add: sim_def)
  have rd: "read_reply ?p (?h @ [OsWrite 0 ?bs, Sleep 100, OsRead 0 4096])
      = Inr (''  5.000 '' @ lf)"
    by (simp add: sim_def says_def last_written_def)
  have dec: "utf8_decode (take 4096 (''  5.000 '' @ lf)) = Some (lit (''  5.000 '' @ lf))"
    by (simp add: lf_def utf8_decode_lit)
  have cl: "close_err ?p (?h @ [OsWrite 0 ?bs, Sleep 100, OsRead 0 4096, OsClose 0]) = None"
    by (simp add: sim_def)
  have st: "strip (lit (''  5.000 '' @ lf)) = lit ''5.000''"
    by (simp add: strip_def isspace_def lit_def lf_def)
  from query_returns_trimmed_reply[OF fd refl enc op wr sl rd dec cl] st
  show ?thesis by (simp add: st0_def)
qed

subsection \<open>Construction\<close>

lemma init_unfold:
  "init p dev s =
     (case query p (lit ''*IDN?'') (s\<lparr>self := \<lparr>device = dev, idn = None\<rparr>\<rparr>) of
        (Inl e, s1) \<Rightarrow> (Inl e, s1)
      | (Inr i, s1) \<Rightarrow>
          if \<not> str_contains (lit ''RIGOL'') i \<and> \<not> str_contains (lit ''DP8'') i
          then (Inl (ConnectionError (lit ''Unexpected device response: '' @ i)), s1)
          else (Inr (), s1\<lparr>self := \<lparr>device = dev, idn = Some i\<rparr>\<rparr>))"
proof -
  let ?s0 = "s\<lparr>self := \<lparr>device = dev, idn = None\<rparr>\<rparr>"
  obtain q s1 where q: "query p (lit ''*IDN?'') ?s0 = (q, s1)"
    by (cases "query p (lit ''*IDN?'') ?s0")
  have "self s1 = self ?s0" using query_self[of p "lit ''*IDN?''" ?s0] q by simp
  then have "(self s1)\<lparr>idn := Some i\<rparr> = \<lparr>device = dev, idn = Some i\<rparr>" for i
    by simp
  then show ?thesis
    using q
    by (simp add: init_def verify_connection_def io_bind_def raise_def split: sum.splits)
qed

text \<open>
  C4 as the spec states it does not hold in the direction "only if": construction can
  fail with a \<open>ConnectionError\<close> although no identity string was returned.  When the
  write of the identity query fails with EPIPE, \<open>os.write\<close> raises \<open>BrokenPipeError\<close>,
  which is a \<open>ConnectionError\<close>, and construction fails with it.
\<close>

theorem construction_connection_error_counterexample:
  "fst (query stalled (lit ''*IDN?'') st0) = Inl (OSError 32) \<and>
   init stalled DEFAULT_DEVICE st0 =
     (Inl (OSError 32),
      st0\<lparr>trace := [Query (lit ''*IDN?''), OsOpen DEFAULT_DEVICE, OsWrite 0 (''*IDN?'' @ lf),
                       OsClose 0]\<rparr>) \<and>
   is_ConnectionError (OSError 32)"
proof -
  have enc: "utf8_encode (lit ''*IDN?'' @ newline) = Some (''*IDN?'' @ lf)"
    by (simp add: newline_lit lit_append[symmetric] utf8_encode_lit lf_def)
  have run: "query stalled (lit ''*IDN?'') st0 =
      (Inl (OSError 32),
       st0\<lparr>trace := [Query (lit ''*IDN?''), OsOpen DEFAULT_DEVICE,
         OsWrite 0 (''*IDN?'' @ lf), OsClose 0]\<rparr>)"
    by (simp add: query_def io_bind_def try_finally_def ret_def log_def os_open_def
        os_write_def os_close_def str_encode_def Let_def enc stalled_def sim_def st0_def
        lowest_free_Nil)
  have s0: "st0\<lparr>self := \<lparr>device = DEFAULT_DEVICE, idn = None\<rparr>\<rparr> = st0"
    by (simp add: st0_def)
  have "init stalled DEFAULT_DEVICE st0 =
      (Inl (OSError 32),
       st0\<lparr>trace := [Query (lit ''*IDN?''), OsOpen DEFAULT_DEVICE,
         OsWrite 0 (''*IDN?'' @ lf), OsClose 0]\<rparr>)"
    by (simp add: init_unfold s0 run)
  with run show ?thesis by (simp add: connection_errno_def)
qed

text \<open>
  C4, amended.  Constructing the client issues exactly one device operation, the identity
  query \<open>*IDN?\<close>, and nothing after it.  When the query returns an identity string,
  construction fails with a \<open>ConnectionError\<close> if and only if the string contains neither
  \<open>RIGOL\<close> nor \<open>DP8\<close>; the state is then the one the query left, so nothing further was
  done to the device.  When the identity contains one of the two, construction succeeds
  and the object holds the device path and that identity string.  A failure of the query
  itself propagates unchanged, whatever its class.
\<close>

theorem construction_identity_check:
  assumes "query p (lit ''*IDN?'') (s\<lparr>self := \<lparr>device = dev, idn = None\<rparr>\<rparr>) = (q, s1)"
  shows "calls (trace (snd (init p dev s))) = calls (trace s) @ [Query (lit ''*IDN?'')] \<and>
         trace (snd (init p dev s)) = trace s1 \<and>
         (\<forall>i. q = Inr i \<longrightarrow>
            ((\<exists>e. fst (init p dev s) = Inl e \<and> is_ConnectionError e) \<longleftrightarrow>
               \<not> str_contains (lit ''RIGOL'') i \<and> \<not> str_contains (lit ''DP8'') i)) \<and>
         (\<forall>i. q = Inr i \<and> \<not> str_contains (lit ''RIGOL'') i \<and> \<not> str_contains (lit ''DP8'') i \<longrightarrow>
            init p dev s =
              (Inl (ConnectionError (lit ''Unexpected device response: '' @ i)), s1)) \<and>
         (\<forall>i. q = Inr i \<and> (str_contains (lit ''RIGOL'') i \<or> str_contains (lit ''DP8'') i) \<longrightarrow>
            init p dev s = (Inr (), s1\<lparr>self := \<lparr>device = dev, idn = Some i\<rparr>\<rparr>)) \<and>
         (\<forall>e. q = Inl e \<longrightarrow> init p dev s = (Inl e, s1))"
proof -
  let ?s0 = "s\<lparr>self := \<lparr>device = dev, idn = None\<rparr>\<rparr>"
  have c: "calls (trace s1) = calls (trace s) @ [Query (lit ''*IDN?'')]"
    using query_calls[of p "lit ''*IDN?''" ?s0] assms by simp
  show ?thesis
  proof (cases q)
    case (Inl e)
    with assms c show ?thesis by (simp add: init_unfold)
  next
    case (Inr i)
    with assms c show ?thesis by (simp add: init_unfold)
  qed
qed

theorem construction_identity_check_witness:
  "init (sim dp832) DEFAULT_DEVICE st0 =
     (Inr (),
      \<lparr>self = \<lparr>device = DEFAULT_DEVICE,
                idn = Some (lit ''RIGOL TECHNOLOGIES,DP832A,DP8B000000,00.01.16'')\<rparr>,
       trace = [Query (lit ''*IDN?''), OsOpen DEFAULT_DEVICE, OsWrite 0 (''*IDN?'' @ lf),
                Sleep 100, OsRead 0 4096, OsClose 0],
       opened = []\<rparr>) \<and>
   init (sim (says ''ACME,PSU-1'')) DEFAULT_DEVICE st0 =
     (Inl (ConnectionError (lit ''Unexpected device response: ACME,PSU-1'')),
      \<lparr>self = \<lparr>device = DEFAULT_DEVICE, idn = None\<rparr>,
       trace = [Query (lit ''*IDN?''), OsOpen DEFAULT_DEVICE, OsWrite 0 (''*IDN?'' @ lf),
                Sleep 100, OsRead 0 4096, OsClose 0],
       opened = []\<rparr>)"
proof -
  let ?S = "st0\<lparr>trace := [Query (lit ''*IDN?''), OsOpen DEFAULT_DEVICE,
      OsWrite 0 (''*IDN?'' @ lf), Sleep 100, OsRead 0 4096, OsClose 0]\<rparr>"
  have s0: "st0\<lparr>self := \<lparr>device = DEFAULT_DEVICE, idn = None\<rparr>\<rparr> = st0"
    by (simp add: st0_def)
  have q1: "query (sim dp832) (lit ''*IDN?'')
      (st0\<lparr>self := \<lparr>device = DEFAULT_DEVICE, idn = None\<rparr>\<rparr>) =
      (Inr (lit ''RIGOL TECHNOLOGIES,DP832A,DP8B000000,00.01.16''), ?S)"
    unfolding s0
    by (subst sim_query_st0) (simp_all add: dp832_def lf_def strip_def isspace_def lit_def)
  have q2: "query (sim (says ''ACME,PSU-1'')) (lit ''*IDN?'')
      (st0\<lparr>self := \<lparr>device = DEFAULT_DEVICE, idn = None\<rparr>\<rparr>) =
      (Inr (lit ''ACME,PSU-1''), ?S)"
    unfolding s0
    by (subst sim_query_st0) (simp_all add: says_def lf_def strip_def isspace_def lit_def)
  have k1: "str_contains (lit ''RIGOL'') (lit ''RIGOL TECHNOLOGIES,DP832A,DP8B000000,00.01.16'')"
    by (simp add: lit_def)
  have k2: "\<not> str_contains (lit ''RIGOL'') (lit ''ACME,PSU-1'')"
    "\<not> str_contains (lit ''DP8'') (lit ''ACME,PSU-1'')"
    by (simp_all add: lit_def)
  from construction_identity_check[OF q1] k1
  have i1: "init (sim dp832) DEFAULT_DEVICE st0 =
      (Inr (), ?S\<lparr>self := \<lparr>device = DEFAULT_DEVICE,
         idn = Some (lit ''RIGOL TECHNOLOGIES,DP832A,DP8B000000,00.01.16'')\<rparr>\<rparr>)"
    by blast
  from construction_identity_check[OF q2] k2
  have i2: "init (sim (says ''ACME,PSU-1'')) DEFAULT_DEVICE st0 =
      (Inl (ConnectionError (lit ''Unexpected device response: '' @ lit ''ACME,PSU-1'')), ?S)"
    by blast
  from i1 i2 show ?thesis by (simp add: st0_def lit_def)
qed

subsection \<open>Sequences of sends\<close>

lemma sim_command0:
  assumes "list_all (\<lambda>c. (of_char c :: nat) < 128) cs" and "opened s = []"
  shows "command (sim reply) (lit cs) s =
     (Inr (),
      s\<lparr>trace := trace s @ [Command (lit cs), OsOpen (device (self s)), OsWrite 0 (cs @ lf),
                            Sleep 50, OsClose 0]\<rparr>)"
proof -
  have fd: "0 = lowest_free (opened s)" using assms(2) by (simp add: lowest_free_Nil)
  show ?thesis
    by (rule sim_command[where reply=reply and cs=cs and s=s and fd=0, OF assms(1) fd])
qed


lemma command_then:
  assumes "command p a s = (Inr (), s1)"
  shows "io_bind (command p a) (\<lambda>u. command p b) s = command p b s1"
    and "calls (trace (snd (io_bind (command p a) (\<lambda>u. command p b) s)))
           = calls (trace s) @ [Command a, Command b]"
proof -
  show 1: "io_bind (command p a) (\<lambda>u. command p b) s = command p b s1"
    using assms by (simp add: io_bind_def)
  have "calls (trace s1) = calls (trace s) @ [Command a]"
    using command_calls[of p a s] assms by simp
  then show "calls (trace (snd (io_bind (command p a) (\<lambda>u. command p b) s)))
           = calls (trace s) @ [Command a, Command b]"
    by (simp add: 1 command_calls)
qed

lemma command_fails_then:
  assumes "command p a s = (Inl e, s1)"
  shows "io_bind (command p a) f s = (Inl e, s1)"
    and "calls (trace (snd (io_bind (command p a) f s))) = calls (trace s) @ [Command a]"
  using command_calls[of p a s] assms by (simp_all add: io_bind_def)

text \<open>
  C8.  \<open>set_ovp\<close> and \<open>set_ocp\<close> each issue two sends, in this order: first the command that
  sets the threshold value, then the command that switches the protection on.  Once the
  first send has returned, the operation continues with the second and ends as the second
  ends, so that exactly these two sends have been issued.
\<close>

theorem protection_two_sends:
  "(command p (lit '':OUTP:OVP:VAL CH'' @ str_int ch @ lit '','' @ str_of_float p v) s
        = (Inr (), s1) \<longrightarrow>
      set_ovp p ch v s = command p (lit '':OUTP:OVP CH'' @ str_int ch @ lit '',ON'') s1 \<and>
      calls (trace (snd (set_ovp p ch v s))) =
        calls (trace s) @
          [Command (lit '':OUTP:OVP:VAL CH'' @ str_int ch @ lit '','' @ str_of_float p v),
           Command (lit '':OUTP:OVP CH'' @ str_int ch @ lit '',ON'')]) \<and>
   (command p (lit '':OUTP:OCP:VAL CH'' @ str_int ch @ lit '','' @ str_of_float p v) s
        = (Inr (), s1) \<longrightarrow>
      set_ocp p ch v s = command p (lit '':OUTP:OCP CH'' @ str_int ch @ lit '',ON'') s1 \<and>
      calls (trace (snd (set_ocp p ch v s))) =
        calls (trace s) @
          [Command (lit '':OUTP:OCP:VAL CH'' @ str_int ch @ lit '','' @ str_of_float p v),
           Command (lit '':OUTP:OCP CH'' @ str_int ch @ lit '',ON'')])"
  unfolding set_ovp_def set_ocp_def by (intro conjI impI; erule command_then)

theorem protection_two_sends_witness:
  "set_ovp (sim dp832) 1 (lit ''5.5'') st0 =
     (Inr (),
      st0\<lparr>trace :=
        [Command (lit '':OUTP:OVP:VAL CH1,5.5''), OsOpen DEFAULT_DEVICE,
         OsWrite 0 ('':OUTP:OVP:VAL CH1,5.5'' @ lf), Sleep 50, OsClose 0,
         Command (lit '':OUTP:OVP CH1,ON''), OsOpen DEFAULT_DEVICE,
         OsWrite 0 ('':OUTP:OVP CH1,ON'' @ lf), Sleep 50, OsClose 0]\<rparr>) \<and>
   calls (trace (snd (set_ovp (sim dp832) 1 (lit ''5.5'') st0))) =
     [Command (lit '':OUTP:OVP:VAL CH1,5.5''), Command (lit '':OUTP:OVP CH1,ON'')] \<and>
   calls (trace (snd (set_ocp (sim dp832) 1 (lit ''0.5'') st0))) =
     [Command (lit '':OUTP:OCP:VAL CH1,0.5''), Command (lit '':OUTP:OCP CH1,ON'')]"
proof -
  let ?p = "sim dp832"
  let ?S1 = "st0\<lparr>trace := [Command (lit '':OUTP:OVP:VAL CH1,5.5''), OsOpen DEFAULT_DEVICE,
         OsWrite 0 ('':OUTP:OVP:VAL CH1,5.5'' @ lf), Sleep 50, OsClose 0]\<rparr>"
  let ?T1 = "st0\<lparr>trace := [Command (lit '':OUTP:OCP:VAL CH1,0.5''), OsOpen DEFAULT_DEVICE,
         OsWrite 0 ('':OUTP:OCP:VAL CH1,0.5'' @ lf), Sleep 50, OsClose 0]\<rparr>"
  have a: "lit '':OUTP:OVP:VAL CH'' @ str_int 1 @ lit '','' @ str_of_float ?p (lit ''5.5'')
      = lit '':OUTP:OVP:VAL CH1,5.5''"
    by (simp add: str_int_1 sim_def lit_def)
  have b: "lit '':OUTP:OVP CH'' @ str_int 1 @ lit '',ON'' = lit '':OUTP:OVP CH1,ON''"
    by (simp add: str_int_1 lit_def)
  have a': "lit '':OUTP:OCP:VAL CH'' @ str_int 1 @ lit '','' @ str_of_float ?p (lit ''0.5'')
      = lit '':OUTP:OCP:VAL CH1,0.5''"
    by (simp add: str_int_1 sim_def lit_def)
  have b': "lit '':OUTP:OCP CH'' @ str_int 1 @ lit '',ON'' = lit '':OUTP:OCP CH1,ON''"
    by (simp add: str_int_1 lit_def)
  have c1: "command ?p (lit '':OUTP:OVP:VAL CH'' @ str_int 1 @ lit '','' @ str_of_float ?p (lit ''5.5'')) st0
      = (Inr (), ?S1)"
    unfolding a by (subst sim_command0) (simp_all add: st0_def)
  have d1: "command ?p (lit '':OUTP:OCP:VAL CH'' @ str_int 1 @ lit '','' @ str_of_float ?p (lit ''0.5'')) st0
      = (Inr (), ?T1)"
    unfolding a' by (subst sim_command0) (simp_all add: st0_def)
  have c2: "command ?p (lit '':OUTP:OVP CH'' @ str_int 1 @ lit '',ON'') ?S1 =
      (Inr (), ?S1\<lparr>trace := trace ?S1 @ [Command (lit '':OUTP:OVP CH1,ON''),
         OsOpen (device (self ?S1)), OsWrite 0 ('':OUTP:OVP CH1,ON'' @ lf), Sleep 50, OsClose 0]\<rparr>)"
    unfolding b by (rule sim_command0) (simp_all add: st0_def)
  from protection_two_sends[of ?p 1 "lit ''5.5''" st0 ?S1] c1
  have r1: "set_ovp ?p 1 (lit ''5.5'') st0
        = command ?p (lit '':OUTP:OVP CH'' @ str_int 1 @ lit '',ON'') ?S1"
    and r2: "calls (trace (snd (set_ovp ?p 1 (lit ''5.5'') st0))) =
        calls (trace st0) @
          [Command (lit '':OUTP:OVP:VAL CH'' @ str_int 1 @ lit '','' @ str_of_float ?p (lit ''5.5'')),
           Command (lit '':OUTP:OVP CH'' @ str_int 1 @ lit '',ON'')]"
    by blast+
  from protection_two_sends[of ?p 1 "lit ''0.5''" st0 ?T1] d1
  have r3: "calls (trace (snd (set_ocp ?p 1 (lit ''0.5'') st0))) =
        calls (trace st0) @
          [Command (lit '':OUTP:OCP:VAL CH'' @ str_int 1 @ lit '','' @ str_of_float ?p (lit ''0.5'')),
           Command (lit '':OUTP:OCP CH'' @ str_int 1 @ lit '',ON'')]"
    by blast
  have t0: "calls (trace st0) = []" by (simp add: st0_def calls_def)
  from r1 c2 have e1: "set_ovp ?p 1 (lit ''5.5'') st0 =
     (Inr (),
      st0\<lparr>trace :=
        [Command (lit '':OUTP:OVP:VAL CH1,5.5''), OsOpen DEFAULT_DEVICE,
         OsWrite 0 ('':OUTP:OVP:VAL CH1,5.5'' @ lf), Sleep 50, OsClose 0,
         Command (lit '':OUTP:OVP CH1,ON''), OsOpen DEFAULT_DEVICE,
         OsWrite 0 ('':OUTP:OVP CH1,ON'' @ lf), Sleep 50, OsClose 0]\<rparr>)"
    by (simp add: st0_def)
  from r2 have e2: "calls (trace (snd (set_ovp ?p 1 (lit ''5.5'') st0))) =
     [Command (lit '':OUTP:OVP:VAL CH1,5.5''), Command (lit '':OUTP:OVP CH1,ON'')]"
    unfolding a b t0 by simp
  from r3 have e3: "calls (trace (snd (set_ocp ?p 1 (lit ''0.5'') st0))) =
     [Command (lit '':OUTP:OCP:VAL CH1,0.5''), Command (lit '':OUTP:OCP CH1,ON'')]"
    unfolding a' b' t0 by simp
  from e1 e2 e3 show ?thesis by blast
qed

lemma set_voltage_calls:
  "calls (trace (snd (set_voltage p ch v s))) =
     calls (trace s) @ [Command (lit '':SOUR'' @ str_int ch @ lit '':VOLT '' @ str_of_float p v)]"
  by (simp add: set_voltage_def command_calls)

lemma set_current_calls:
  "calls (trace (snd (set_current p ch c s))) =
     calls (trace s) @ [Command (lit '':SOUR'' @ str_int ch @ lit '':CURR '' @ str_of_float p c)]"
  by (simp add: set_current_def command_calls)

lemma output_on_calls:
  "calls (trace (snd (output_on p ch s))) =
     calls (trace s) @ [Command (lit '':OUTP CH'' @ str_int ch @ lit '',ON'')]"
  by (simp add: output_on_def command_calls)

lemma output_off_calls:
  "calls (trace (snd (output_off p ch s))) =
     calls (trace s) @ [Command (lit '':OUTP CH'' @ str_int ch @ lit '',OFF'')]"
  by (simp add: output_off_def command_calls)

lemma configure_no_flag:
  "calls (trace (snd (configure p ch v c False s))) =
     calls (trace s) @ [Command (lit '':SOUR'' @ str_int ch @ lit '':VOLT '' @ str_of_float p v)]
   \<or> calls (trace (snd (configure p ch v c False s))) =
     calls (trace s) @ [Command (lit '':SOUR'' @ str_int ch @ lit '':VOLT '' @ str_of_float p v),
                        Command (lit '':SOUR'' @ str_int ch @ lit '':CURR '' @ str_of_float p c)]"
proof (cases "set_voltage p ch v s")
  case (Pair r s1)
  have c1: "calls (trace s1) =
      calls (trace s) @ [Command (lit '':SOUR'' @ str_int ch @ lit '':VOLT '' @ str_of_float p v)]"
    using set_voltage_calls[of p ch v s] Pair by simp
  show ?thesis
  proof (cases r)
    case (Inl e)
    with Pair c1 show ?thesis by (simp add: configure_def io_bind_def)
  next
    case (Inr u)
    obtain r2 s2 where p2: "set_current p ch c s1 = (r2, s2)" by (cases "set_current p ch c s1")
    have c2: "calls (trace s2) =
        calls (trace s1) @ [Command (lit '':SOUR'' @ str_int ch @ lit '':CURR '' @ str_of_float p c)]"
      using set_current_calls[of p ch c s1] p2 by simp
    have "snd (configure p ch v c False s) = s2"
      using Pair Inr p2 by (cases r2) (simp_all add: configure_def io_bind_def ret_def)
    with c1 c2 show ?thesis by simp
  qed
qed

text \<open>
  C9.  \<open>configure\<close> sends the voltage setpoint first and the current setpoint second.  When
  both sends have returned, it goes on to send the output-enable command if the flag is
  true, and is finished, with exactly those two sends issued, if the flag is false (the
  default value of the parameter).  With the flag false no output-state command is ever
  issued, whatever the outcome of the two sends: the sends issued are the voltage setpoint
  alone or the voltage and the current setpoint.
\<close>

theorem configure_order:
  "(set_voltage p ch v s = (Inr (), s1) \<and> set_current p ch c s1 = (Inr (), s2) \<longrightarrow>
      configure p ch v c True s = output_on p ch s2 \<and>
      configure p ch v c False s = (Inr (), s2) \<and>
      calls (trace (snd (configure p ch v c True s))) =
        calls (trace s) @
          [Command (lit '':SOUR'' @ str_int ch @ lit '':VOLT '' @ str_of_float p v),
           Command (lit '':SOUR'' @ str_int ch @ lit '':CURR '' @ str_of_float p c),
           Command (lit '':OUTP CH'' @ str_int ch @ lit '',ON'')] \<and>
      calls (trace (snd (configure p ch v c False s))) =
        calls (trace s) @
          [Command (lit '':SOUR'' @ str_int ch @ lit '':VOLT '' @ str_of_float p v),
           Command (lit '':SOUR'' @ str_int ch @ lit '':CURR '' @ str_of_float p c)]) \<and>
   (calls (trace (snd (configure p ch v c False s))) =
      calls (trace s) @
        [Command (lit '':SOUR'' @ str_int ch @ lit '':VOLT '' @ str_of_float p v)] \<or>
    calls (trace (snd (configure p ch v c False s))) =
      calls (trace s) @
        [Command (lit '':SOUR'' @ str_int ch @ lit '':VOLT '' @ str_of_float p v),
         Command (lit '':SOUR'' @ str_int ch @ lit '':CURR '' @ str_of_float p c)])"
proof (intro conjI impI)
  assume h: "set_voltage p ch v s = (Inr (), s1) \<and> set_current p ch c s1 = (Inr (), s2)"
  have c1: "calls (trace s1) =
      calls (trace s) @ [Command (lit '':SOUR'' @ str_int ch @ lit '':VOLT '' @ str_of_float p v)]"
    using set_voltage_calls[of p ch v s] h by simp
  have c2: "calls (trace s2) =
      calls (trace s1) @ [Command (lit '':SOUR'' @ str_int ch @ lit '':CURR '' @ str_of_float p c)]"
    using set_current_calls[of p ch c s1] h by simp
  show t: "configure p ch v c True s = output_on p ch s2"
    using h by (simp add: configure_def io_bind_def)
  show f: "configure p ch v c False s = (Inr (), s2)"
    using h by (simp add: configure_def io_bind_def ret_def)
  show "calls (trace (snd (configure p ch v c True s))) =
        calls (trace s) @
          [Command (lit '':SOUR'' @ str_int ch @ lit '':VOLT '' @ str_of_float p v),
           Command (lit '':SOUR'' @ str_int ch @ lit '':CURR '' @ str_of_float p c),
           Command (lit '':OUTP CH'' @ str_int ch @ lit '',ON'')]"
    by (simp add: t output_on_calls c1 c2)
  show "calls (trace (snd (configure p ch v c False s))) =
        calls (trace s) @
          [Command (lit '':SOUR'' @ str_int ch @ lit '':VOLT '' @ str_of_float p v),
           Command (lit '':SOUR'' @ str_int ch @ lit '':CURR '' @ str_of_float p c)]"
    by (simp add: f c1 c2)
next
  show "calls (trace (snd (configure p ch v c False s))) =
      calls (trace s) @
        [Command (lit '':SOUR'' @ str_int ch @ lit '':VOLT '' @ str_of_float p v)] \<or>
    calls (trace (snd (configure p ch v c False s))) =
      calls (trace s) @
        [Command (lit '':SOUR'' @ str_int ch @ lit '':VOLT '' @ str_of_float p v),
         Command (lit '':SOUR'' @ str_int ch @ lit '':CURR '' @ str_of_float p c)]"
    by (rule configure_no_flag)
qed

theorem configure_order_witness:
  "configure (sim dp832) 1 (lit ''5.0'') (lit ''0.5'') False st0 =
     (Inr (),
      st0\<lparr>trace :=
        [Command (lit '':SOUR1:VOLT 5.0''), OsOpen DEFAULT_DEVICE,
         OsWrite 0 ('':SOUR1:VOLT 5.0'' @ lf), Sleep 50, OsClose 0,
         Command (lit '':SOUR1:CURR 0.5''), OsOpen DEFAULT_DEVICE,
         OsWrite 0 ('':SOUR1:CURR 0.5'' @ lf), Sleep 50, OsClose 0]\<rparr>) \<and>
   calls (trace (snd (configure (sim dp832) 1 (lit ''5.0'') (lit ''0.5'') True st0))) =
     [Command (lit '':SOUR1:VOLT 5.0''), Command (lit '':SOUR1:CURR 0.5''),
      Command (lit '':OUTP CH1,ON'')]"
proof -
  let ?p = "sim dp832"
  let ?S1 = "st0\<lparr>trace := [Command (lit '':SOUR1:VOLT 5.0''), OsOpen DEFAULT_DEVICE,
         OsWrite 0 ('':SOUR1:VOLT 5.0'' @ lf), Sleep 50, OsClose 0]\<rparr>"
  let ?S2 = "st0\<lparr>trace := [Command (lit '':SOUR1:VOLT 5.0''), OsOpen DEFAULT_DEVICE,
         OsWrite 0 ('':SOUR1:VOLT 5.0'' @ lf), Sleep 50, OsClose 0,
         Command (lit '':SOUR1:CURR 0.5''), OsOpen DEFAULT_DEVICE,
         OsWrite 0 ('':SOUR1:CURR 0.5'' @ lf), Sleep 50, OsClose 0]\<rparr>"
  have a: "lit '':SOUR'' @ str_int 1 @ lit '':VOLT '' @ str_of_float ?p (lit ''5.0'')
      = lit '':SOUR1:VOLT 5.0''"
    by (simp add: str_int_1 sim_def lit_def)
  have b: "lit '':SOUR'' @ str_int 1 @ lit '':CURR '' @ str_of_float ?p (lit ''0.5'')
      = lit '':SOUR1:CURR 0.5''"
    by (simp add: str_int_1 sim_def lit_def)
  have c: "lit '':OUTP CH'' @ str_int 1 @ lit '',ON'' = lit '':OUTP CH1,ON''"
    by (simp add: str_int_1 lit_def)
  have v: "set_voltage ?p 1 (lit ''5.0'') st0 = (Inr (), ?S1)"
    unfolding set_voltage_def a by (subst sim_command0) (simp_all add: st0_def)
  have i: "set_current ?p 1 (lit ''0.5'') ?S1 = (Inr (), ?S2)"
    unfolding set_current_def b by (subst sim_command0) (simp_all add: st0_def)
  have t0: "calls (trace st0) = []" by (simp add: st0_def calls_def)
  from configure_order[of ?p 1 "lit ''5.0''" st0 ?S1 "lit ''0.5''" ?S2] v i
  have r1: "configure ?p 1 (lit ''5.0'') (lit ''0.5'') False st0 = (Inr (), ?S2)"
    and r2: "calls (trace (snd (configure ?p 1 (lit ''5.0'') (lit ''0.5'') True st0))) =
        calls (trace st0) @
          [Command (lit '':SOUR'' @ str_int 1 @ lit '':VOLT '' @ str_of_float ?p (lit ''5.0'')),
           Command (lit '':SOUR'' @ str_int 1 @ lit '':CURR '' @ str_of_float ?p (lit ''0.5'')),
           Command (lit '':OUTP CH'' @ str_int 1 @ lit '',ON'')]"
    by blast+
  from r2 have e2: "calls (trace (snd (configure ?p 1 (lit ''5.0'') (lit ''0.5'') True st0))) =
     [Command (lit '':SOUR1:VOLT 5.0''), Command (lit '':SOUR1:CURR 0.5''),
      Command (lit '':OUTP CH1,ON'')]"
    unfolding a b c t0 by simp
  from r1 e2 show ?thesis by blast
qed

subsection \<open>Turning all outputs off\<close>

lemma bind_ret_unit: "io_bind m (\<lambda>u. ret ()) s = m s"
  by (cases "m s") (auto simp: io_bind_def ret_def split: sum.splits)

lemma all_off_unfold:
  "all_off p =
     io_bind (output_off p 1) (\<lambda>u. io_bind (output_off p 2) (\<lambda>u. output_off p 3))"
proof -
  have "io_bind (output_off p 3) (\<lambda>u. ret ()) = output_off p 3"
    by (rule ext) (rule bind_ret_unit)
  then show ?thesis by (simp add: all_off_def)
qed

text \<open>
  C2 as the spec states it does not hold: with the device file missing, the first send
  fails, \<open>all_off\<close> raises that error and only the send for channel 1 has been issued.
\<close>

theorem all_off_three_sends_counterexample:
  "fst (all_off unplugged st0) = Inl (OSError 2) \<and>
   calls (trace (snd (all_off unplugged st0))) = [Command (lit '':OUTP CH1,OFF'')] \<and>
   length (calls (trace (snd (all_off unplugged st0)))) \<noteq> 3"
proof -
  have c: "lit '':OUTP CH'' @ str_int 1 @ lit '',OFF'' = lit '':OUTP CH1,OFF''"
    by (simp add: str_int_1 lit_def)
  have "open_err unplugged (trace st0 @ [Command (lit '':OUTP CH1,OFF''),
      OsOpen (device (self st0))]) = Some 2"
    by (simp add: unplugged_def sim_def)
  then have "output_off unplugged 1 st0 =
      (Inl (OSError 2),
       st0\<lparr>trace := trace st0 @ [Command (lit '':OUTP CH1,OFF''), OsOpen (device (self st0))]\<rparr>)"
    unfolding output_off_def c by (rule command_open_fails)
  then have "all_off unplugged st0 =
      (Inl (OSError 2),
       st0\<lparr>trace := trace st0 @ [Command (lit '':OUTP CH1,OFF''), OsOpen (device (self st0))]\<rparr>)"
    by (simp add: all_off_unfold io_bind_def)
  then show ?thesis by (simp add: st0_def calls_def)
qed

text \<open>
  C2, amended.  \<open>all_off\<close> issues the sends that switch channels 1, 2 and 3 off, in this
  order, and stops at the first send that fails: its error is the error of \<open>all_off\<close> and
  the later channels are not attempted.  When the sends for channels 1 and 2 have
  returned, the send for channel 3 is issued as well and \<open>all_off\<close> ends as it ends, so
  that exactly three sends have been issued.
\<close>

theorem all_off_stops_at_first_failure:
  "(output_off p 1 s = (Inl e, s1) \<longrightarrow>
      all_off p s = (Inl e, s1) \<and>
      calls (trace (snd (all_off p s))) =
        calls (trace s) @ [Command (lit '':OUTP CH'' @ str_int 1 @ lit '',OFF'')]) \<and>
   (output_off p 1 s = (Inr (), s1) \<and> output_off p 2 s1 = (Inl e, s2) \<longrightarrow>
      all_off p s = (Inl e, s2) \<and>
      calls (trace (snd (all_off p s))) =
        calls (trace s) @ [Command (lit '':OUTP CH'' @ str_int 1 @ lit '',OFF''),
                           Command (lit '':OUTP CH'' @ str_int 2 @ lit '',OFF'')]) \<and>
   (output_off p 1 s = (Inr (), s1) \<and> output_off p 2 s1 = (Inr (), s2) \<longrightarrow>
      all_off p s = output_off p 3 s2 \<and>
      calls (trace (snd (all_off p s))) =
        calls (trace s) @ [Command (lit '':OUTP CH'' @ str_int 1 @ lit '',OFF''),
                           Command (lit '':OUTP CH'' @ str_int 2 @ lit '',OFF''),
                           Command (lit '':OUTP CH'' @ str_int 3 @ lit '',OFF'')])"
proof (intro conjI impI)
  assume h: "output_off p 1 s = (Inl e, s1)"
  show a: "all_off p s = (Inl e, s1)"
    using h by (simp add: all_off_unfold io_bind_def)
  show "calls (trace (snd (all_off p s))) =
        calls (trace s) @ [Command (lit '':OUTP CH'' @ str_int 1 @ lit '',OFF'')]"
    using output_off_calls[of p 1 s] h by (simp add: a)
next
  assume h: "output_off p 1 s = (Inr (), s1) \<and> output_off p 2 s1 = (Inl e, s2)"
  show a: "all_off p s = (Inl e, s2)"
    using h by (simp add: all_off_unfold io_bind_def)
  show "calls (trace (snd (all_off p s))) =
        calls (trace s) @ [Command (lit '':OUTP CH'' @ str_int 1 @ lit '',OFF''),
                           Command (lit '':OUTP CH'' @ str_int 2 @ lit '',OFF'')]"
    using output_off_calls[of p 1 s] output_off_calls[of p 2 s1] h by (simp add: a)
next
  assume h: "output_off p 1 s = (Inr (), s1) \<and> output_off p 2 s1 = (Inr (), s2)"
  show a: "all_off p s = output_off p 3 s2"
    using h by (simp add: all_off_unfold io_bind_def)
  show "calls (trace (snd (all_off p s))) =
        calls (trace s) @ [Command (lit '':OUTP CH'' @ str_int 1 @ lit '',OFF''),
                           Command (lit '':OUTP CH'' @ str_int 2 @ lit '',OFF''),
                           Command (lit '':OUTP CH'' @ str_int 3 @ lit '',OFF'')]"
    using output_off_calls[of p 1 s] output_off_calls[of p 2 s1] output_off_calls[of p 3 s2] h
    by (simp add: a)
qed

lemma str_int_2: "str_int 2 = lit ''2''"
  by (simp add: str_int_digit lit_def)

lemma str_int_3: "str_int 3 = lit ''3''"
  by (simp add: str_int_digit lit_def)

theorem all_off_stops_at_first_failure_witness:
  "all_off (sim dp832) st0 =
     (Inr (),
      st0\<lparr>trace :=
        [Command (lit '':OUTP CH1,OFF''), OsOpen DEFAULT_DEVICE,
         OsWrite 0 ('':OUTP CH1,OFF'' @ lf), Sleep 50, OsClose 0,
         Command (lit '':OUTP CH2,OFF''), OsOpen DEFAULT_DEVICE,
         OsWrite 0 ('':OUTP CH2,OFF'' @ lf), Sleep 50, OsClose 0,
         Command (lit '':OUTP CH3,OFF''), OsOpen DEFAULT_DEVICE,
         OsWrite 0 ('':OUTP CH3,OFF'' @ lf), Sleep 50, OsClose 0]\<rparr>) \<and>
   calls (trace (snd (all_off (sim dp832) st0))) =
     [Command (lit '':OUTP CH1,OFF''), Command (lit '':OUTP CH2,OFF''),
      Command (lit '':OUTP CH3,OFF'')] \<and>
   all_off unplugged st0 =
     (Inl (OSError 2),
      st0\<lparr>trace := [Command (lit '':OUTP CH1,OFF''), OsOpen DEFAULT_DEVICE]\<rparr>)"
proof -
  let ?p = "sim dp832"
  let ?S1 = "st0\<lparr>trace := [Command (lit '':OUTP CH1,OFF''), OsOpen DEFAULT_DEVICE,
         OsWrite 0 ('':OUTP CH1,OFF'' @ lf), Sleep 50, OsClose 0]\<rparr>"
  let ?S2 = "st0\<lparr>trace := [Command (lit '':OUTP CH1,OFF''), OsOpen DEFAULT_DEVICE,
         OsWrite 0 ('':OUTP CH1,OFF'' @ lf), Sleep 50, OsClose 0,
         Command (lit '':OUTP CH2,OFF''), OsOpen DEFAULT_DEVICE,
         OsWrite 0 ('':OUTP CH2,OFF'' @ lf), Sleep 50, OsClose 0]\<rparr>"
  let ?S3 = "st0\<lparr>trace := [Command (lit '':OUTP CH1,OFF''), OsOpen DEFAULT_DEVICE,
         OsWrite 0 ('':OUTP CH1,OFF'' @ lf), Sleep 50, OsClose 0,
         Command (lit '':OUTP CH2,OFF''), OsOpen DEFAULT_DEVICE,
         OsWrite 0 ('':OUTP CH2,OFF'' @ lf), Sleep 50, OsClose 0,
         Command (lit '':OUTP CH3,OFF''), OsOpen DEFAULT_DEVICE,
         OsWrite 0 ('':OUTP CH3,OFF'' @ lf), Sleep 50, OsClose 0]\<rparr>"
  let ?U1 = "st0\<lparr>trace := [Command (lit '':OUTP CH1,OFF''), OsOpen DEFAULT_DEVICE]\<rparr>"
  have c1: "lit '':OUTP CH'' @ str_int 1 @ lit '',OFF'' = lit '':OUTP CH1,OFF''"
    by (simp add: str_int_1 lit_def)
  have c2: "lit '':OUTP CH'' @ str_int 2 @ lit '',OFF'' = lit '':OUTP CH2,OFF''"
    by (simp add: str_int_2 lit_def)
  have c3: "lit '':OUTP CH'' @ str_int 3 @ lit '',OFF'' = lit '':OUTP CH3,OFF''"
    by (simp add: str_int_3 lit_def)
  have o1: "output_off ?p 1 st0 = (Inr (), ?S1)"
    unfolding output_off_def c1 by (subst sim_command0) (simp_all add: st0_def)
  have o2: "output_off ?p 2 ?S1 = (Inr (), ?S2)"
    unfolding output_off_def c2 by (subst sim_command0) (simp_all add: st0_def)
  have o3: "output_off ?p 3 ?S2 = (Inr (), ?S3)"
    unfolding output_off_def c3 by (subst sim_command0) (simp_all add: st0_def)
  have u1: "output_off unplugged 1 st0 = (Inl (OSError 2), ?U1)"
    unfolding output_off_def c1
    by (subst command_open_fails[where e=2]) (simp_all add: unplugged_def sim_def st0_def)
  have t0: "calls (trace st0) = []" by (simp add: st0_def calls_def)
  from all_off_stops_at_first_failure[of ?p st0 "OSError 2" ?S1 ?S2] o1 o2
  have r1: "all_off ?p st0 = output_off ?p 3 ?S2"
    and r2: "calls (trace (snd (all_off ?p st0))) =
        calls (trace st0) @ [Command (lit '':OUTP CH'' @ str_int 1 @ lit '',OFF''),
                             Command (lit '':OUTP CH'' @ str_int 2 @ lit '',OFF''),
                             Command (lit '':OUTP CH'' @ str_int 3 @ lit '',OFF'')]"
    by blast+
  from all_off_stops_at_first_failure[of unplugged st0 "OSError 2" ?U1 ?U1] u1
  have r3: "all_off unplugged st0 = (Inl (OSError 2), ?U1)"
    by blast
  from r2 have e2: "calls (trace (snd (all_off ?p st0))) =
     [Command (lit '':OUTP CH1,OFF''), Command (lit '':OUTP CH2,OFF''),
      Command (lit '':OUTP CH3,OFF'')]"
    unfolding c1 c2 c3 t0 by simp
  from r1 o3 e2 r3 show ?thesis by simp
qed

subsection \<open>Reading the status\<close>



















end
